theory Spec2Isabelle
  imports Complex_Main "HOL-Library.Multiset"
begin

section \<open>The Python runtime the bot relies on\<close>

text \<open>
  The bot is Python. Its handlers use a handful of runtime and standard-library
  operations: \<^verbatim>\<open>str.split\<close>, \<^verbatim>\<open>str.strip\<close>, \<^verbatim>\<open>int()\<close>, \<^verbatim>\<open>str()\<close> of an integer, the
  \<^verbatim>\<open>{n:02d}\<close> format, \<^verbatim>\<open>datetime\<close> comparison, \<^verbatim>\<open>strptime\<close>/\<^verbatim>\<open>strftime\<close> with the
  format \<^verbatim>\<open>%Y-%m-%d\<close>, and \<^verbatim>\<open>calendar.monthcalendar\<close>. They are given here as
  executable functions. Strings are byte strings; a pictograph of a source literal is
  written as its UTF-8 bytes. Exceptions are values of type \<open>exc\<close>.
\<close>

datatype exc =
  ValueError | IndexError | KeyError | TypeError | AttributeError | OverflowError
  | IllegalMonthError

subsection \<open>Strings and integers\<close>

definition is_space :: "char \<Rightarrow> bool" where
  "is_space c = ((of_char c :: nat) \<in> {9, 10, 11, 12, 13, 28, 29, 30, 31, 32})"

definition py_strip :: "string \<Rightarrow> string" where
  "py_strip s = rev (dropWhile is_space (rev (dropWhile is_space s)))"

text \<open>\<^verbatim>\<open>s.split(c)\<close> for a one-character separator: never the empty list.\<close>

fun py_split :: "char \<Rightarrow> string \<Rightarrow> string list" where
  "py_split c [] = [[]]"
| "py_split c (x # xs) =
     (if x = c then [] # py_split c xs
      else (case py_split c xs of
              [] \<Rightarrow> [[x]]
            | w # ws \<Rightarrow> (x # w) # ws))"

definition is_digit :: "char \<Rightarrow> bool" where
  "is_digit c = (c \<in> set ''0123456789'')"

definition digit_val :: "char \<Rightarrow> nat" where
  "digit_val c = of_char c - 48"

definition nat_of_digits :: "string \<Rightarrow> nat" where
  "nat_of_digits s = foldl (\<lambda>a c. 10 * a + digit_val c) 0 s"

text \<open>
  The digits of an \<^verbatim>\<open>int()\<close> argument after the sign: groups of decimal digits,
  one underscore allowed between two groups.
\<close>

definition digit_groups :: "string \<Rightarrow> nat option" where
  "digit_groups s =
     (let gs = py_split (CHR ''_'') s
      in if list_all (\<lambda>g. g \<noteq> [] \<and> list_all is_digit g) gs
         then Some (nat_of_digits (concat gs)) else None)"

text \<open>\<^verbatim>\<open>int(s)\<close> for a string: \<open>None\<close> stands for the \<^verbatim>\<open>ValueError\<close>.\<close>

definition py_int :: "string \<Rightarrow> int option" where
  "py_int s =
     (case py_strip s of
        [] \<Rightarrow> None
      | c # r \<Rightarrow>
          if c = CHR ''-'' then map_option (\<lambda>n. - int n) (digit_groups r)
          else if c = CHR ''+'' then map_option int (digit_groups r)
          else map_option int (digit_groups (c # r)))"

definition digit_char :: "nat \<Rightarrow> char" where
  "digit_char n = ''0123456789'' ! n"

function str_nat :: "nat \<Rightarrow> string" where
  "str_nat n = (if n < 10 then [digit_char n] else str_nat (n div 10) @ [digit_char (n mod 10)])"
  by pat_completeness auto
termination
  by (relation "measure id") auto

declare str_nat.simps [simp del]

text \<open>\<^verbatim>\<open>str(i)\<close> and the format \<^verbatim>\<open>{i:02d}\<close> of an integer.\<close>

definition str_int :: "int \<Rightarrow> string" where
  "str_int i = (if i < 0 then CHR ''-'' # str_nat (nat (- i)) else str_nat (nat i))"

definition fmt_02d :: "int \<Rightarrow> string" where
  "fmt_02d i = (if 0 \<le> i \<and> i < 10 then CHR ''0'' # str_int i else str_int i)"

subsection \<open>Dates\<close>

text \<open>
  A \<^verbatim>\<open>datetime\<close> is used by the bot for its date only: \<^verbatim>\<open>strptime\<close> with
  \<^verbatim>\<open>%Y-%m-%d\<close> yields midnight, and of \<^verbatim>\<open>datetime.now()\<close> only year, month and day
  are read.
\<close>

record datetime =
  year :: int
  month :: int
  day :: int

definition dt_less :: "datetime \<Rightarrow> datetime \<Rightarrow> bool" where
  "dt_less a b =
     (year a < year b \<or>
      (year a = year b \<and> (month a < month b \<or> (month a = month b \<and> day a < day b))))"

definition dt_le :: "datetime \<Rightarrow> datetime \<Rightarrow> bool" where
  "dt_le a b =
     (dt_less a b \<or> (year a = year b \<and> month a = month b \<and> day a = day b))"

definition isleap :: "int \<Rightarrow> bool" where
  "isleap y = (y mod 4 = 0 \<and> (y mod 100 \<noteq> 0 \<or> y mod 400 = 0))"

definition mdays :: "int list" where
  "mdays = [0, 31, 28, 31, 30, 31, 30, 31, 31, 30, 31, 30, 31]"

definition ndays_of :: "int \<Rightarrow> int \<Rightarrow> int" where
  "ndays_of y m = mdays ! nat m + (if m = 2 \<and> isleap y then 1 else 0)"

definition days_before_year :: "int \<Rightarrow> int" where
  "days_before_year y = (y - 1) * 365 + (y - 1) div 4 - (y - 1) div 100 + (y - 1) div 400"

definition days_before_month :: "int \<Rightarrow> int \<Rightarrow> int" where
  "days_before_month y m =
     sum_list (take (nat m - 1) (tl mdays)) + (if m > 2 \<and> isleap y then 1 else 0)"

text \<open>\<^verbatim>\<open>calendar.weekday\<close>: Monday is 0; a year outside 1..9999 is folded into 2000..2399.\<close>

definition weekday :: "int \<Rightarrow> int \<Rightarrow> int \<Rightarrow> int" where
  "weekday y m d =
     (let y' = (if 1 \<le> y \<and> y \<le> 9999 then y else 2000 + y mod 400)
      in (days_before_year y' + days_before_month y' m + d + 6) mod 7)"

fun group7 :: "'a list \<Rightarrow> 'a list list" where
  "group7 [] = []"
| "group7 (x # xs) = take 7 (x # xs) # group7 (drop 7 (x # xs))"

text \<open>\<^verbatim>\<open>Calendar.itermonthdays\<close> with Monday as first weekday, for a month in 1..12.\<close>

definition itermonthdays :: "int \<Rightarrow> int \<Rightarrow> int list" where
  "itermonthdays y m =
     (let day1 = weekday y m 1; ndays = ndays_of y m
      in replicate (nat (day1 mod 7)) 0 @ [1..ndays] @
         replicate (nat ((- day1 - ndays) mod 7)) 0)"

definition monthcalendar :: "int \<Rightarrow> int \<Rightarrow> exc + int list list" where
  "monthcalendar y m =
     (if \<not> (1 \<le> m \<and> m \<le> 12) then Inl IllegalMonthError
      else Inr (group7 (itermonthdays y m)))"

definition month_names :: "string list" where
  "month_names = ['''', ''January'', ''February'', ''March'', ''April'', ''May'', ''June'',
     ''July'', ''August'', ''September'', ''October'', ''November'', ''December'']"

text \<open>\<^verbatim>\<open>calendar.month_name[m]\<close>: a list of 13 entries, indexed as Python indexes lists.\<close>

definition month_name :: "int \<Rightarrow> exc + string" where
  "month_name m =
     (if 0 \<le> m \<and> m \<le> 12 then Inr (month_names ! nat m)
      else if - 13 \<le> m \<and> m < 0 then Inr (month_names ! nat (13 + m))
      else Inl IndexError)"

text \<open>
  \<^verbatim>\<open>datetime.strptime(s, "%Y-%m-%d")\<close>. The format's pattern is four digits, a month
  written \<^verbatim>\<open>1[0-2]|0[1-9]|[1-9]\<close> and a day written \<^verbatim>\<open>3[0-1]|[1-2]\d|0[1-9]|[1-9]| [1-9]\<close>,
  separated by hyphens, with nothing left over; the date must exist.
\<close>

definition month_field :: "string \<Rightarrow> bool" where
  "month_field ms =
     (list_all is_digit ms \<and> (length ms = 1 \<or> length ms = 2) \<and>
      1 \<le> nat_of_digits ms \<and> nat_of_digits ms \<le> 12)"

definition day_field :: "string \<Rightarrow> bool" where
  "day_field ds =
     ((list_all is_digit ds \<and> (length ds = 1 \<or> length ds = 2) \<and>
       1 \<le> nat_of_digits ds \<and> nat_of_digits ds \<le> 31) \<or>
      (length ds = 2 \<and> hd ds = CHR '' '' \<and> is_digit (ds ! 1) \<and> ds ! 1 \<noteq> CHR ''0''))"

definition strptime :: "string \<Rightarrow> exc + datetime" where
  "strptime s =
     (case py_split (CHR ''-'') s of
        [ys, ms, ds] \<Rightarrow>
          if length ys = 4 \<and> list_all is_digit ys \<and> month_field ms \<and> day_field ds then
            (let y = int (nat_of_digits ys);
                 m = int (nat_of_digits ms);
                 d = int (nat_of_digits (dropWhile is_space ds))
             in if 1 \<le> y \<and> d \<le> ndays_of y m
                then Inr \<lparr>year = y, month = m, day = d\<rparr>
                else Inl ValueError)
          else Inl ValueError
      | _ \<Rightarrow> Inl ValueError)"

text \<open>\<^verbatim>\<open>dt.strftime('%Y-%m-%d')\<close> (the year is not padded by the C library on Linux).\<close>

definition strftime :: "datetime \<Rightarrow> string" where
  "strftime dt = str_int (year dt) @ ''-'' @ fmt_02d (month dt) @ ''-'' @ fmt_02d (day dt)"

text \<open>\<^verbatim>\<open>dt + timedelta(days=1)\<close> for a valid date.\<close>

definition next_day :: "datetime \<Rightarrow> exc + datetime" where
  "next_day dt =
     (if day dt < ndays_of (year dt) (month dt) then Inr (dt\<lparr>day := day dt + 1\<rparr>)
      else if month dt < 12 then Inr \<lparr>year = year dt, month = month dt + 1, day = 1\<rparr>
      else if year dt < 9999 then Inr \<lparr>year = year dt + 1, month = 1, day = 1\<rparr>
      else Inl OverflowError)"

section \<open>The chat transport\<close>

text \<open>
  An inline keyboard is a list of rows of buttons. What a handler sends is recorded as a
  list of actions, in order; the transport is taken to deliver them.
\<close>

record button =
  button_text :: string
  callback_data :: string

definition InlineKeyboardButton :: "string \<Rightarrow> string \<Rightarrow> button" where
  "InlineKeyboardButton t c = \<lparr>button_text = t, callback_data = c\<rparr>"

type_synonym markup = "button list list"

datatype action =
    Answer
  | AnswerAlert string
  | ReplyText string "markup option"
  | EditText string "markup option"
  | EditReplyMarkup "markup option"

datatype state = LOCATION | SELECT_CHECKIN | SELECT_CHECKOUT | GUESTS | AMENITIES | PRICE_RANGE

text \<open>
  What a handler returns to the conversation handler: \<^verbatim>\<open>None\<close> (the state stays), a
  state, or \<^verbatim>\<open>ConversationHandler.END\<close>; \<open>Raises\<close> is an exception that leaves the
  handler (the state stays as well).
\<close>

datatype ret = Return_None | Return state | Return_END | Raises exc

section \<open>The calendar picker\<close>

definition cross_mark :: string where
  "cross_mark = [CHR 0xE2, CHR 0x9C, CHR 0x97]"

definition check_mark :: string where
  "check_mark = [CHR 0xE2, CHR 0x9C, CHR 0x93]"

definition date_str :: "int \<Rightarrow> int \<Rightarrow> int \<Rightarrow> string" where
  "date_str yr mo dy = str_int yr @ ''-'' @ fmt_02d mo @ ''-'' @ fmt_02d dy"

text \<open>The body of the loop over the days of a week, in \<^verbatim>\<open>create_calendar\<close>.\<close>

definition day_button :: "datetime \<Rightarrow> int \<Rightarrow> int \<Rightarrow> datetime option \<Rightarrow> int \<Rightarrow> button" where
  "day_button today yr mo selected_date dy =
     (if dy = 0 then InlineKeyboardButton '' '' ''ignore''
      else
        let is_past = (yr < year today \<or>
                       (yr = year today \<and> mo < month today) \<or>
                       (yr = year today \<and> mo = month today \<and> dy < day today))
        in if is_past then InlineKeyboardButton cross_mark ''ignore''
           else
             InlineKeyboardButton
               (case selected_date of
                  None \<Rightarrow> str_int dy
                | Some sel \<Rightarrow> if day sel = dy then check_mark @ str_int dy else str_int dy)
               (''cal_'' @ date_str yr mo dy))"

definition nav_row :: "datetime \<Rightarrow> int \<Rightarrow> int \<Rightarrow> button list" where
  "nav_row today yr mo =
     (let prev_month = (if mo > 1 then mo - 1 else 12);
          prev_year = (if mo > 1 then yr else yr - 1);
          next_month = (if mo < 12 then mo + 1 else 1);
          next_year = (if mo < 12 then yr else yr + 1);
          can_go_prev = (prev_year > year today \<or>
                         (prev_year = year today \<and> prev_month \<ge> month today))
      in [if can_go_prev
          then InlineKeyboardButton ''<<''
                 (''nav_'' @ str_int prev_year @ ''_'' @ str_int prev_month)
          else InlineKeyboardButton '' '' ''ignore'',
          InlineKeyboardButton ''>>''
            (''nav_'' @ str_int next_year @ ''_'' @ str_int next_month)])"

definition week_days :: "string list" where
  "week_days = [''Mo'', ''Tu'', ''We'', ''Th'', ''Fr'', ''Sa'', ''Su'']"

text \<open>
  \<^verbatim>\<open>create_calendar(year, month, selected_date)\<close>; \<open>today\<close> is what \<^verbatim>\<open>datetime.now()\<close>
  returns inside it.
\<close>

definition create_calendar ::
  "datetime \<Rightarrow> int \<Rightarrow> int \<Rightarrow> datetime option \<Rightarrow> exc + markup" where
  "create_calendar today yr mo selected_date =
     (case month_name mo of
        Inl e \<Rightarrow> Inl e
      | Inr name \<Rightarrow>
          (case monthcalendar yr mo of
             Inl e \<Rightarrow> Inl e
           | Inr cal \<Rightarrow>
               Inr ([InlineKeyboardButton (name @ '' '' @ str_int yr) ''ignore''] #
                    map (\<lambda>d. InlineKeyboardButton d ''ignore'') week_days #
                    map (map (day_button today yr mo selected_date)) cal @
                    [nav_row today yr mo])))"

section \<open>Search results and the session\<close>

text \<open>
  A Python float is a finite value, given by the rational it denotes, an infinity or
  not-a-number. \<^verbatim>\<open>int(f)\<close> truncates toward zero and raises on the other three.
\<close>

datatype pyfloat = Finite rat | PosInf | NegInf | NaN

definition int_of_float :: "pyfloat \<Rightarrow> exc + int" where
  "int_of_float f =
     (case f of
        Finite q \<Rightarrow> Inr (if 0 \<le> q then \<lfloor>q\<rfloor> else \<lceil>q\<rceil>)
      | PosInf \<Rightarrow> Inl OverflowError
      | NegInf \<Rightarrow> Inl OverflowError
      | NaN \<Rightarrow> Inl ValueError)"

definition float_gt :: "pyfloat \<Rightarrow> rat \<Rightarrow> bool" where
  "float_gt f r = (case f of Finite q \<Rightarrow> r < q | PosInf \<Rightarrow> True | NegInf \<Rightarrow> False | NaN \<Rightarrow> False)"

text \<open>
  What \<^verbatim>\<open>response.json()\<close> yields: a dictionary is the list of its items, each key once.
\<close>

datatype json =
    JNull
  | JBool bool
  | JInt int
  | JFloat pyfloat
  | JStr string
  | JList "json list"
  | JObj "(string \<times> json) list"

definition dict_get :: "(string \<times> json) list \<Rightarrow> string \<Rightarrow> json option" where
  "dict_get d k = map_of d k"

text \<open>Python's truth value of a JSON value (\<^verbatim>\<open>not v\<close>, \<^verbatim>\<open>v or w\<close>).\<close>

fun truthy :: "json \<Rightarrow> bool" where
  "truthy JNull = False"
| "truthy (JBool b) = b"
| "truthy (JInt n) = (n \<noteq> 0)"
| "truthy (JFloat f) = (f \<noteq> Finite 0)"
| "truthy (JStr s) = (s \<noteq> [])"
| "truthy (JList l) = (l \<noteq> [])"
| "truthy (JObj d) = (d \<noteq> [])"

text \<open>
  The runtime operations whose results the development leaves open; every theorem holds
  for each choice of them. \<open>rt_float\<close> is \<^verbatim>\<open>float(s)\<close> of a string (\<open>None\<close> for the
  \<^verbatim>\<open>ValueError\<close>), \<open>rt_repr\<close> is \<^verbatim>\<open>str(v)\<close> of a float, list or dictionary,
  \<open>rt_hash\<close> is \<^verbatim>\<open>hash(s)\<close>, \<open>rt_list\<close> is \<^verbatim>\<open>list(s)\<close> of a set, \<open>rt_fmt1\<close> is the
  format \<^verbatim>\<open>{f:.1f}\<close> and \<open>rt_fstr\<close> is \<^verbatim>\<open>str(f)\<close> of a float.
\<close>

record runtime =
  rt_float :: "string \<Rightarrow> pyfloat option"
  rt_repr :: "json \<Rightarrow> string"
  rt_hash :: "string \<Rightarrow> int"
  rt_list :: "string set \<Rightarrow> string list"
  rt_fmt1 :: "pyfloat \<Rightarrow> string"
  rt_fstr :: "pyfloat \<Rightarrow> string"

definition py_str :: "runtime \<Rightarrow> json \<Rightarrow> string" where
  "py_str R v =
     (case v of
        JNull \<Rightarrow> ''None''
      | JBool b \<Rightarrow> (if b then ''True'' else ''False'')
      | JInt n \<Rightarrow> str_int n
      | JStr s \<Rightarrow> s
      | _ \<Rightarrow> rt_repr R v)"

text \<open>
  \<^verbatim>\<open>float(v)\<close> and \<^verbatim>\<open>int(v)\<close> of a JSON value. (\<^verbatim>\<open>float\<close> of an integer is taken to
  be exact, which it is below \<open>2^53\<close>.)
\<close>

definition to_float :: "runtime \<Rightarrow> json \<Rightarrow> exc + pyfloat" where
  "to_float R v =
     (case v of
        JInt n \<Rightarrow> Inr (Finite (of_int n))
      | JFloat f \<Rightarrow> Inr f
      | JBool b \<Rightarrow> Inr (Finite (if b then 1 else 0))
      | JStr s \<Rightarrow> (case rt_float R s of None \<Rightarrow> Inl ValueError | Some f \<Rightarrow> Inr f)
      | _ \<Rightarrow> Inl TypeError)"

definition to_int :: "json \<Rightarrow> exc + int" where
  "to_int v =
     (case v of
        JInt n \<Rightarrow> Inr n
      | JFloat f \<Rightarrow> int_of_float f
      | JBool b \<Rightarrow> Inr (if b then 1 else 0)
      | JStr s \<Rightarrow> (case py_int s of None \<Rightarrow> Inl ValueError | Some n \<Rightarrow> Inr n)
      | _ \<Rightarrow> Inl TypeError)"

text \<open>The dictionary \<^verbatim>\<open>search_listings\<close> builds for one result.\<close>

record listing =
  title :: string
  price :: int
  rating :: pyfloat
  reviews :: int
  location :: string
  url :: string
  bedrooms :: pyfloat
  bathrooms :: pyfloat
  max_guests :: int
  amenities :: json

text \<open>
  \<^verbatim>\<open>context.user_data\<close>: a key that is absent is \<open>None\<close>. The entries
  \<^verbatim>\<open>listing_<id>\<close> are the map \<open>ud_listings\<close>, from the id. The amenity selection is a
  set until the selection is finished and a list from then on.
\<close>

datatype selection = AmenitySet "string set" | AmenityList "string list"

record user_data =
  ud_location :: "string option"
  ud_checkin_date :: "datetime option"
  ud_checkout_date :: "datetime option"
  ud_dates :: "string option"
  ud_calendar_state :: "state option"
  ud_guests :: "int option"
  ud_selected_amenities :: "selection option"
  ud_listings :: "string \<rightharpoonup> listing"

section \<open>The conversation handlers\<close>

definition heavy_check_mark :: string where
  "heavy_check_mark = [CHR 0xE2, CHR 0x9C, CHR 0x85]"

definition location_handler ::
  "datetime \<Rightarrow> string \<Rightarrow> user_data \<Rightarrow> user_data \<times> ret \<times> action list" where
  "location_handler now message_text ud =
     (let ud1 = ud\<lparr>ud_location := Some message_text\<rparr>
      in case create_calendar now (year now) (month now) None of
           Inl e \<Rightarrow> (ud1, Raises e, [])
         | Inr calendar_markup \<Rightarrow>
             (ud1, Return SELECT_CHECKIN,
              [ReplyText ''Please select your check-in date:'' (Some calendar_markup)]))"

text \<open>\<^verbatim>\<open>context.user_data.get('calendar_state', SELECT_CHECKIN)\<close>\<close>

definition calendar_state_or_default :: "user_data \<Rightarrow> state" where
  "calendar_state_or_default ud =
     (case ud_calendar_state ud of None \<Rightarrow> SELECT_CHECKIN | Some s \<Rightarrow> s)"

text \<open>The \<^verbatim>\<open>except Exception\<close> branch of \<^verbatim>\<open>handle_calendar\<close>.\<close>

definition calendar_error :: "user_data \<Rightarrow> user_data \<times> ret \<times> action list" where
  "calendar_error ud =
     (ud, Return (calendar_state_or_default ud),
      [Answer, AnswerAlert ''Error processing selection''])"

text \<open>\<^verbatim>\<open>year, month = int(data[1]), int(data[2])\<close>\<close>

definition nav_arguments :: "string list \<Rightarrow> exc + int \<times> int" where
  "nav_arguments data =
     (if length data < 2 then Inl IndexError
      else case py_int (data ! 1) of
             None \<Rightarrow> Inl ValueError
           | Some yr \<Rightarrow>
               if length data < 3 then Inl IndexError
               else case py_int (data ! 2) of
                      None \<Rightarrow> Inl ValueError
                    | Some mo \<Rightarrow> Inr (yr, mo))"

text \<open>\<^verbatim>\<open>selected_date = datetime.strptime(data[1], "%Y-%m-%d")\<close>\<close>

definition cal_argument :: "string list \<Rightarrow> exc + datetime" where
  "cal_argument data = (if length data < 2 then Inl IndexError else strptime (data ! 1))"

definition handle_calendar ::
  "datetime \<Rightarrow> string \<Rightarrow> user_data \<Rightarrow> user_data \<times> ret \<times> action list" where
  "handle_calendar now query_data ud =
     (if query_data = ''ignore'' then (ud, Return_None, [Answer])
      else
        let data = py_split (CHR ''_'') query_data; action = hd data
        in if action = ''nav'' then
             (case nav_arguments data of
                Inl e \<Rightarrow> calendar_error ud
              | Inr (yr, mo) \<Rightarrow>
                  (case create_calendar now yr mo None of
                     Inl e \<Rightarrow> calendar_error ud
                   | Inr calendar_markup \<Rightarrow>
                       (ud, Return (calendar_state_or_default ud),
                        [Answer, EditReplyMarkup (Some calendar_markup)])))
           else if action = ''cal'' then
             (case cal_argument data of
                Inl e \<Rightarrow> calendar_error ud
              | Inr selected_date \<Rightarrow>
                  (case ud_checkin_date ud of
                     None \<Rightarrow>
                       (let ud1 = ud\<lparr>ud_checkin_date := Some selected_date\<rparr>
                        in case next_day selected_date of
                             Inl e \<Rightarrow> calendar_error ud1
                           | Inr nd \<Rightarrow>
                               (case create_calendar now (year nd) (month nd) None of
                                  Inl e \<Rightarrow> calendar_error ud1
                                | Inr calendar_markup \<Rightarrow>
                                    (ud1\<lparr>ud_calendar_state := Some SELECT_CHECKOUT\<rparr>,
                                     Return SELECT_CHECKOUT,
                                     [Answer,
                                      EditText (heavy_check_mark @ '' Check-in: '' @
                                                strftime selected_date @
                                                ''\<newline>Select check-out date:'')
                                        (Some calendar_markup)])))
                   | Some checkin \<Rightarrow>
                       if dt_le selected_date checkin then
                         (ud, Return SELECT_CHECKOUT,
                          [Answer, AnswerAlert ''Please select a date after check-in''])
                       else
                         (ud\<lparr>ud_checkout_date := Some selected_date,
                             ud_dates := Some (strftime checkin @ '' to '' @
                                               strftime selected_date)\<rparr>,
                          Return GUESTS,
                          [Answer,
                           EditText (heavy_check_mark @ '' Dates selected!\<newline>Check-in: '' @
                                     strftime checkin @ ''\<newline>Check-out: '' @
                                     strftime selected_date) None,
                           ReplyText ''How many guests will be staying?'' None])))
           else (ud, Return_None, [Answer]))"

definition checkin_fallback :: "user_data \<Rightarrow> user_data \<times> ret \<times> action list" where
  "checkin_fallback ud =
     (ud, Return SELECT_CHECKIN,
      [ReplyText ''Please use the calendar to select your check-in date.'' None])"

definition checkout_fallback :: "user_data \<Rightarrow> user_data \<times> ret \<times> action list" where
  "checkout_fallback ud =
     (ud, Return SELECT_CHECKOUT,
      [ReplyText ''Please use the calendar to select your check-out date.'' None])"

definition ballot_box :: string where
  "ballot_box = [CHR 0xE2, CHR 0x98, CHR 0x90]"

definition ballot_box_with_check :: string where
  "ballot_box_with_check = [CHR 0xE2, CHR 0x98, CHR 0x91]"

definition amenities_options :: "(string \<times> string) list" where
  "amenities_options =
     [(''wifi'', ''WiFi '' @ [CHR 0xF0, CHR 0x9F, CHR 0x93, CHR 0xB6]),
      (''kitchen'', ''Kitchen '' @ [CHR 0xF0, CHR 0x9F, CHR 0x8D, CHR 0xB3]),
      (''washer'', ''Washer '' @ [CHR 0xF0, CHR 0x9F, CHR 0xA7, CHR 0xBA]),
      (''dryer'', ''Dryer '' @ [CHR 0xF0, CHR 0x9F, CHR 0x91, CHR 0x95]),
      (''ac'', ''Air Conditioning '' @ [CHR 0xE2, CHR 0x9D, CHR 0x84, CHR 0xEF, CHR 0xB8, CHR 0x8F]),
      (''heating'', ''Heating '' @ [CHR 0xF0, CHR 0x9F, CHR 0x94, CHR 0xA5]),
      (''tv'', ''TV '' @ [CHR 0xF0, CHR 0x9F, CHR 0x93, CHR 0xBA]),
      (''pool'', ''Pool '' @ [CHR 0xF0, CHR 0x9F, CHR 0x8F, CHR 0x8A, CHR 0xE2, CHR 0x80, CHR 0x8D,
                            CHR 0xE2, CHR 0x99, CHR 0x82, CHR 0xEF, CHR 0xB8, CHR 0x8F]),
      (''gym'', ''Gym '' @ [CHR 0xF0, CHR 0x9F, CHR 0x92, CHR 0xAA]),
      (''parking'', ''Free Parking '' @ [CHR 0xF0, CHR 0x9F, CHR 0x9A, CHR 0x97]),
      (''workspace'', ''Workspace '' @ [CHR 0xF0, CHR 0x9F, CHR 0x92, CHR 0xBB]),
      (''pets'', ''Pets Allowed '' @ [CHR 0xF0, CHR 0x9F, CHR 0x90, CHR 0xBE])]"

text \<open>
  The loop that lays the amenity buttons out two to a row: \<open>row\<close> is the row being
  filled.
\<close>

fun rows_of_two :: "button list \<Rightarrow> button list \<Rightarrow> markup" where
  "rows_of_two row [] = (if row \<noteq> [] then [row] else [])"
| "rows_of_two row (b # bs) =
     (if length row = 2 then row # rows_of_two [b] bs else rows_of_two (row @ [b]) bs)"

definition amenities_keyboard :: "(string \<Rightarrow> bool) \<Rightarrow> markup" where
  "amenities_keyboard is_selected =
     rows_of_two []
       (map (\<lambda>(key, label).
               InlineKeyboardButton
                 ((if is_selected key then ballot_box_with_check else ballot_box) @ '' '' @ label)
                 (''amenity_'' @ key @ ''_toggle''))
            amenities_options) @
     [[InlineKeyboardButton (heavy_check_mark @ '' Done'') ''amenities_done'']]"

definition search_start :: "user_data \<Rightarrow> user_data \<times> ret \<times> action list" where
  "search_start ud =
     (ud, Return LOCATION,
      [ReplyText (''Let's find you a great place to stay! '' @
                  [CHR 0xF0, CHR 0x9F, CHR 0x8F, CHR 0xA0] @
                  ''\<newline>Where would you like to go?'') None])"

definition guests_handler :: "string \<Rightarrow> user_data \<Rightarrow> user_data \<times> ret \<times> action list" where
  "guests_handler message_text ud =
     (case py_int message_text of
        None \<Rightarrow>
          (ud, Return GUESTS, [ReplyText ''Please enter a valid number of guests (e.g., 2)'' None])
      | Some guests \<Rightarrow>
          if guests < 1 \<or> guests > 16 then
            (ud, Return GUESTS,
             [ReplyText ''Please enter a valid number of guests (1-16)'' None])
          else
            (ud\<lparr>ud_guests := Some guests, ud_selected_amenities := Some (AmenitySet {})\<rparr>,
             Return AMENITIES,
             [ReplyText
                (''What amenities are important to you? Select all that apply:\<newline>'' @
                 ''(Click an option to select/unselect, then click Done when finished)'')
                (Some (amenities_keyboard (\<lambda>key. False)))]))"

text \<open>
  \<^verbatim>\<open>amenity_callback\<close>. On a list (the selection after \<^verbatim>\<open>amenities_done\<close>)
  \<^verbatim>\<open>remove\<close> deletes the first occurrence and \<^verbatim>\<open>add\<close> does not exist.
\<close>

definition amenity_callback ::
  "runtime \<Rightarrow> string \<Rightarrow> user_data \<Rightarrow> user_data \<times> ret \<times> action list" where
  "amenity_callback R query_data ud0 =
     (let selected0 = (case ud_selected_amenities ud0 of
                         None \<Rightarrow> AmenitySet {}
                       | Some sel \<Rightarrow> sel);
          ud = ud0\<lparr>ud_selected_amenities := Some selected0\<rparr>
      in if query_data = ''amenities_done'' then
           (ud\<lparr>ud_selected_amenities :=
                  Some (AmenityList (case selected0 of
                                       AmenitySet s \<Rightarrow> rt_list R s
                                     | AmenityList l \<Rightarrow> l))\<rparr>,
            Return PRICE_RANGE,
            [EditText (''Great! Now, what's your price range per night? (format: min-max)'' @
                       ''\<newline>Example: 100-200\<newline>'' @
                       ''Or just enter a maximum price like: 200'') None])
         else
           let amenity_data = py_split (CHR ''_'') query_data
           in if length amenity_data = 3 then
                (let amenity_key = amenity_data ! 1
                 in case selected0 of
                      AmenitySet s \<Rightarrow>
                        (let s' = (if amenity_key \<in> s then s - {amenity_key}
                                   else insert amenity_key s)
                         in (ud\<lparr>ud_selected_amenities := Some (AmenitySet s')\<rparr>,
                             Return AMENITIES,
                             [EditReplyMarkup (Some (amenities_keyboard (\<lambda>key. key \<in> s'))),
                              Answer]))
                    | AmenityList l \<Rightarrow>
                        if amenity_key \<in> set l then
                          (let l' = remove1 amenity_key l
                           in (ud\<lparr>ud_selected_amenities := Some (AmenityList l')\<rparr>,
                               Return AMENITIES,
                               [EditReplyMarkup
                                  (Some (amenities_keyboard (\<lambda>key. key \<in> set l'))),
                                Answer]))
                        else (ud, Raises AttributeError, []))
              else (ud, Return AMENITIES, [Answer]))"

section \<open>The listings search\<close>

text \<open>
  \<^verbatim>\<open>AirbnbAPI._parse_price\<close>. Every exception inside it ends in \<^verbatim>\<open>return None\<close>: the
  \<^verbatim>\<open>ValueError\<close> and \<^verbatim>\<open>IndexError\<close> of the inner \<^verbatim>\<open>try\<close> fall through to the final
  \<^verbatim>\<open>return None\<close>, all others reach the outer \<^verbatim>\<open>except Exception\<close>. The argument is
  \<^verbatim>\<open>item.get("price")\<close>, \<open>None\<close> when the key is missing.
\<close>

definition parse_price :: "runtime \<Rightarrow> json option \<Rightarrow> int option" where
  "parse_price R price_data =
     (case price_data of
        None \<Rightarrow> None
      | Some pd \<Rightarrow>
          if \<not> truthy pd then None
          else
            (case pd of
               JObj d \<Rightarrow>
                 (case dict_get d ''priceItems'' of
                    None \<Rightarrow> None
                  | Some items \<Rightarrow>
                      if \<not> truthy items then None
                      else
                        (case items of
                           JList (JObj first # rest) \<Rightarrow>
                             (case (case dict_get first ''title'' of
                                      None \<Rightarrow> JStr []
                                    | Some t \<Rightarrow> t) of
                                JStr title_str \<Rightarrow>
                                  if CHR ''$'' \<in> set title_str \<and> CHR ''x'' \<in> set title_str then
                                    (let price_str =
                                           py_strip (hd (py_split (CHR ''x'')
                                                          (py_split (CHR ''$'') title_str ! 1)))
                                     in case rt_float R price_str of
                                          None \<Rightarrow> None
                                        | Some f \<Rightarrow>
                                            (case int_of_float f of
                                               Inl e \<Rightarrow> None
                                             | Inr n \<Rightarrow> Some n))
                                  else None
                              | _ \<Rightarrow> None)
                         | _ \<Rightarrow> None))
             | _ \<Rightarrow> None))"

text \<open>\<^verbatim>\<open>item.get(k, 0) or 0\<close> and \<^verbatim>\<open>item.get(k, '')\<close>\<close>

definition get_or_zero :: "(string \<times> json) list \<Rightarrow> string \<Rightarrow> json" where
  "get_or_zero d k =
     (case dict_get d k of
        None \<Rightarrow> JInt 0
      | Some v \<Rightarrow> if truthy v then v else JInt 0)"

definition get_or_empty :: "(string \<times> json) list \<Rightarrow> string \<Rightarrow> json" where
  "get_or_empty d k = (case dict_get d k of None \<Rightarrow> JStr [] | Some v \<Rightarrow> v)"

text \<open>
  The body of the loop over the results: \<open>None\<close> when the item is skipped, by the
  \<^verbatim>\<open>continue\<close> after an unparsed price or by the \<^verbatim>\<open>except Exception\<close> around the body.
\<close>

definition listing_of_item :: "runtime \<Rightarrow> string \<Rightarrow> json \<Rightarrow> listing option" where
  "listing_of_item R location_arg item =
     (case item of
        JObj d \<Rightarrow>
          (case parse_price R (dict_get d ''price'') of
             None \<Rightarrow> None
           | Some price_amount \<Rightarrow>
               (case (to_float R (get_or_zero d ''rating''),
                      to_int (get_or_zero d ''reviewsCount''),
                      to_float R (get_or_zero d ''bedrooms''),
                      to_float R (get_or_zero d ''bathrooms''),
                      to_int (if truthy (get_or_zero d ''maxGuests'')
                              then get_or_zero d ''maxGuests''
                              else get_or_zero d ''persons'')) of
                  (Inr rating_v, Inr reviews_v, Inr bedrooms_v, Inr bathrooms_v,
                   Inr max_guests_v) \<Rightarrow>
                    Some \<lparr>title = py_str R (get_or_empty d ''name''),
                          price = price_amount,
                          rating = rating_v,
                          reviews = reviews_v,
                          location =
                            (let place = py_strip (py_str R (get_or_empty d ''city'') @ '' '' @
                                                   py_str R (get_or_empty d ''country''))
                             in if place \<noteq> [] then place else location_arg),
                          url = ''https://www.airbnb.com/rooms/'' @
                                (case dict_get d ''id'' of
                                   None \<Rightarrow> ''None''
                                 | Some v \<Rightarrow> py_str R v),
                          bedrooms = bedrooms_v,
                          bathrooms = bathrooms_v,
                          max_guests = max_guests_v,
                          amenities = (case dict_get d ''previewAmenities'' of
                                         None \<Rightarrow> JList []
                                       | Some v \<Rightarrow> v)\<rparr>
                | _ \<Rightarrow> None))
      | _ \<Rightarrow> None)"

text \<open>
  What \<^verbatim>\<open>requests.get\<close> does with the query parameters: it raises, or it returns a
  response with a status code and a body that is JSON or not.
\<close>

datatype response_body = NotJson | Json json

datatype http_result = RequestException | Response int response_body

type_synonym http_get = "(string \<times> string) list \<Rightarrow> http_result"

definition search_params ::
  "string \<Rightarrow> string \<Rightarrow> string \<Rightarrow> int \<Rightarrow> int option \<Rightarrow> int option \<Rightarrow> (string \<times> string) list" where
  "search_params location_arg check_in check_out guests min_price max_price =
     [(''location'', location_arg), (''checkin'', check_in), (''checkout'', check_out),
      (''adults'', str_int guests), (''children'', ''0''), (''infants'', ''0''),
      (''pets'', ''0''), (''page'', ''1''), (''currency'', ''USD'')] @
     (case min_price of
        None \<Rightarrow> []
      | Some n \<Rightarrow> if n \<noteq> 0 then [(''priceMin'', str_int n)] else []) @
     (case max_price of
        None \<Rightarrow> []
      | Some n \<Rightarrow> if n \<noteq> 0 then [(''priceMax'', str_int n)] else [])"

text \<open>The listings built from the \<^verbatim>\<open>results\<close> of a response, before sorting.\<close>

definition normalized :: "runtime \<Rightarrow> string \<Rightarrow> json list \<Rightarrow> listing list" where
  "normalized R location_arg results = List.map_filter (listing_of_item R location_arg) results"

definition search_listings ::
  "runtime \<Rightarrow> http_get \<Rightarrow> string \<Rightarrow> string \<Rightarrow> string \<Rightarrow> int \<Rightarrow> int option \<Rightarrow> int option \<Rightarrow>
   selection \<Rightarrow> listing list" where
  "search_listings R http location_arg check_in check_out guests min_price max_price amenities_arg =
     (case http (search_params location_arg check_in check_out guests min_price max_price) of
        RequestException \<Rightarrow> []
      | Response status_code body \<Rightarrow>
          if status_code \<noteq> 200 then []
          else
            (case body of
               NotJson \<Rightarrow> []
             | Json data \<Rightarrow>
                 (case data of
                    JObj d \<Rightarrow>
                      (case dict_get d ''results'' of
                         None \<Rightarrow> []
                       | Some results \<Rightarrow>
                           if \<not> truthy results then []
                           else
                             (case results of
                                JList items \<Rightarrow>
                                  take 5 (sort_key price (normalized R location_arg items))
                              | _ \<Rightarrow> []))
                  | _ \<Rightarrow> [])))"

section \<open>The price range and the presentation of the results\<close>

text \<open>
  The parsing at the head of \<^verbatim>\<open>price_range\<close>: \<open>Inl\<close> is the prompt sent when a
  \<^verbatim>\<open>ValueError\<close> is caught, \<open>Inr\<close> the pair \<^verbatim>\<open>(min_price, max_price)\<close>. Unpacking
  \<^verbatim>\<open>map(int, price_text.split('-'))\<close> into two names raises \<^verbatim>\<open>ValueError\<close> unless
  there are exactly two parts and both are integers.
\<close>

definition parse_price_text :: "string \<Rightarrow> string + int \<times> int" where
  "parse_price_text price_text =
     (if CHR ''-'' \<notin> set price_text then
        (case py_int price_text of
           None \<Rightarrow> Inl ''Please enter a valid number or range (e.g., 100-200)''
         | Some max_price \<Rightarrow> Inr (0, max_price))
      else
        (case map py_int (py_split (CHR ''-'') price_text) of
           [Some min_price, Some max_price] \<Rightarrow> Inr (min_price, max_price)
         | _ \<Rightarrow> Inl ''Please enter a valid price range (e.g., 100-200)''))"

fun py_join :: "string \<Rightarrow> string list \<Rightarrow> string" where
  "py_join sep [] = []"
| "py_join sep [x] = x"
| "py_join sep (x # y # ys) = x @ sep @ py_join sep (y # ys)"

text \<open>\<^verbatim>\<open>', '.join(listing['amenities'][:3])\<close> for a truthy value.\<close>

definition first_three_joined :: "json \<Rightarrow> exc + string" where
  "first_three_joined a =
     (case a of
        JList l \<Rightarrow>
          if list_all (\<lambda>v. case v of JStr s \<Rightarrow> True | _ \<Rightarrow> False) (take 3 l)
          then Inr (py_join '', '' (map (\<lambda>v. case v of JStr s \<Rightarrow> s | _ \<Rightarrow> []) (take 3 l)))
          else Inl TypeError
      | JStr s \<Rightarrow> Inr (py_join '', '' (map (\<lambda>c. [c]) (take 3 s)))
      | _ \<Rightarrow> Inl TypeError)"

definition thumbs_up :: string where
  "thumbs_up = [CHR 0xF0, CHR 0x9F, CHR 0x91, CHR 0x8D]"

definition thumbs_down :: string where
  "thumbs_down = [CHR 0xF0, CHR 0x9F, CHR 0x91, CHR 0x8E]"

definition listing_message :: "runtime \<Rightarrow> listing \<Rightarrow> exc + string" where
  "listing_message R l =
     (let head =
            ''['' @ title l @ ''](''  @ url l @ '')\<newline>'' @
            [CHR 0xF0, CHR 0x9F, CHR 0x92, CHR 0xB0] @ '' $'' @ str_int (price l) @
            '' per night\<newline>'' @
            (if float_gt (rating l) 0
             then [CHR 0xE2, CHR 0xAD, CHR 0x90] @ '' '' @ rt_fmt1 R (rating l) @ '' ('' @
                  str_int (reviews l) @ '' reviews)\<newline>''
             else []) @
            (if float_gt (bedrooms l) 0
             then [CHR 0xF0, CHR 0x9F, CHR 0x9B, CHR 0x8F] @ '' '' @ rt_fstr R (bedrooms l) @
                  '' bedroom'' @ (if float_gt (bedrooms l) 1 then ''s'' else []) @ ''\<newline>''
             else []) @
            (if float_gt (bathrooms l) 0
             then [CHR 0xF0, CHR 0x9F, CHR 0x9A, CHR 0xBF] @ '' '' @ rt_fstr R (bathrooms l) @
                  '' bathroom'' @ (if float_gt (bathrooms l) 1 then ''s'' else []) @ ''\<newline>''
             else []) @
            (if max_guests l > 0
             then [CHR 0xF0, CHR 0x9F, CHR 0x91, CHR 0xA5] @ '' Up to '' @
                  str_int (max_guests l) @ '' guests\<newline>''
             else []);
          tail = [CHR 0xF0, CHR 0x9F, CHR 0x93, CHR 0x8D] @ '' '' @ location l
      in if truthy (amenities l) then
           (case first_three_joined (amenities l) of
              Inl e \<Rightarrow> Inl e
            | Inr joined \<Rightarrow>
                Inr (head @ [CHR 0xE2, CHR 0x9C, CHR 0xA8] @ '' '' @ joined @ ''\<newline>'' @ tail))
         else Inr (head @ tail))"

text \<open>
  \<^verbatim>\<open>listing.get('id', str(hash(f"{listing['url']}_{listing['title']}")))\<close>: the
  dictionaries of \<^verbatim>\<open>search_listings\<close> have no \<^verbatim>\<open>id\<close>.
\<close>

definition listing_id_of :: "runtime \<Rightarrow> listing \<Rightarrow> string" where
  "listing_id_of R l = str_int (rt_hash R (url l @ ''_'' @ title l))"

definition feedback_keyboard :: "string \<Rightarrow> markup" where
  "feedback_keyboard listing_id =
     [[InlineKeyboardButton (thumbs_up @ '' Like'') (''feedback_'' @ listing_id @ ''_like''),
       InlineKeyboardButton (thumbs_down @ '' Dislike'')
         (''feedback_'' @ listing_id @ ''_dislike'')]]"

text \<open>
  The loop over the listings: each is stored in the session, then shown. The result is
  the session, the messages sent, and the exception that ended the loop, if one did.
\<close>

fun show_listings ::
  "runtime \<Rightarrow> listing list \<Rightarrow> user_data \<Rightarrow> user_data \<times> action list \<times> exc option" where
  "show_listings R [] ud = (ud, [], None)"
| "show_listings R (l # ls) ud =
     (let listing_id = listing_id_of R l;
          ud1 = ud\<lparr>ud_listings := (ud_listings ud)(listing_id \<mapsto> l)\<rparr>
      in case listing_message R l of
           Inl e \<Rightarrow> (ud1, [], Some e)
         | Inr message \<Rightarrow>
             (case show_listings R ls ud1 of
                (ud2, sent, err) \<Rightarrow>
                  (ud2, ReplyText message (Some (feedback_keyboard listing_id)) # sent, err)))"

text \<open>\<^verbatim>\<open>[self.amenities_options[a] for a in context.user_data['selected_amenities']]\<close>\<close>

definition amenity_labels :: "runtime \<Rightarrow> selection \<Rightarrow> exc + string list" where
  "amenity_labels R sel =
     (let keys = (case sel of AmenitySet s \<Rightarrow> rt_list R s | AmenityList l \<Rightarrow> l)
      in if list_all (\<lambda>a. map_of amenities_options a \<noteq> None) keys
         then Inr (List.map_filter (map_of amenities_options) keys)
         else Inl KeyError)"

definition selection_truthy :: "selection option \<Rightarrow> bool" where
  "selection_truthy sel =
     (case sel of
        None \<Rightarrow> False
      | Some (AmenitySet s) \<Rightarrow> s \<noteq> {}
      | Some (AmenityList l) \<Rightarrow> l \<noteq> [])"

definition final_message ::
  "runtime \<Rightarrow> string \<Rightarrow> datetime \<Rightarrow> datetime \<Rightarrow> int \<Rightarrow> int \<Rightarrow> int \<Rightarrow> selection option \<Rightarrow>
   exc + string" where
  "final_message R loc checkin checkout guests min_price max_price sel =
     (let head =
            ''Those are the best matches I found! '' @ [CHR 0xF0, CHR 0x9F, CHR 0x8E, CHR 0x89] @
            ''\<newline>\<newline>'' @
            [CHR 0xF0, CHR 0x9F, CHR 0x93, CHR 0x8D] @ '' *Location:* '' @ loc @ ''\<newline>'' @
            [CHR 0xF0, CHR 0x9F, CHR 0x93, CHR 0x85] @ '' *Dates:* '' @ strftime checkin @
            '' to '' @ strftime checkout @ ''\<newline>'' @
            [CHR 0xF0, CHR 0x9F, CHR 0x91, CHR 0xA5] @ '' *Guests:* '' @ str_int guests @
            ''\<newline>'' @
            [CHR 0xF0, CHR 0x9F, CHR 0x92, CHR 0xB0] @ '' *Price Range:* $'' @
            str_int min_price @ ''-'' @ str_int max_price @ ''\<newline>'';
          tail =
            ''\<newline>The more feedback you provide on listings, '' @
            ''the better I can learn your preferences! '' @ [CHR 0xF0, CHR 0x9F, CHR 0x8E, CHR 0xAF]
      in if selection_truthy sel then
           (case sel of
              None \<Rightarrow> Inr (head @ tail)
            | Some chosen \<Rightarrow>
                (case amenity_labels R chosen of
                   Inl e \<Rightarrow> Inl e
                 | Inr labels \<Rightarrow>
                     Inr (head @ [CHR 0xE2, CHR 0x9C, CHR 0xA8] @ '' *Amenities:* '' @
                          py_join '', '' labels @ ''\<newline>'' @ tail)))
         else Inr (head @ tail))"

definition searching_text :: string where
  "searching_text = [CHR 0xF0, CHR 0x9F, CHR 0x94, CHR 0x8D] @ '' Searching for properties...''"

definition no_results_text :: string where
  "no_results_text =
     ''Sorry, no properties found matching your criteria. '' @
     [CHR 0xF0, CHR 0x9F, CHR 0x98, CHR 0x94] @
     ''\<newline>Try adjusting your:\<newline>- Price range\<newline>- Dates\<newline>'' @
     ''- Location\<newline>- Number of guests\<newline>\<newline>'' @
     ''Use /search to start a new search.''"

definition found_text :: "nat \<Rightarrow> string" where
  "found_text n =
     [CHR 0xF0, CHR 0x9F, CHR 0x8F, CHR 0xA0] @ '' Found '' @ str_int (int n) @
     '' properties matching your criteria!\<newline>Here are the best matches:''"

definition went_wrong_text :: string where
  "went_wrong_text =
     ''Sorry, something went wrong. Please try again with a valid price range (e.g., 100-200)''"

text \<open>
  \<^verbatim>\<open>price_range\<close>. The criteria are read from the session (a missing key is a
  \<^verbatim>\<open>KeyError\<close>); every exception after the parsing reaches the handler's
  \<^verbatim>\<open>except Exception\<close>, which keeps what was stored and sent before it.
\<close>

definition price_range ::
  "runtime \<Rightarrow> http_get \<Rightarrow> string \<Rightarrow> user_data \<Rightarrow> user_data \<times> ret \<times> action list" where
  "price_range R http message_text ud =
     (case parse_price_text message_text of
        Inl prompt \<Rightarrow> (ud, Return PRICE_RANGE, [ReplyText prompt None])
      | Inr (min_price, max_price) \<Rightarrow>
          (case (ud_location ud, ud_checkin_date ud, ud_checkout_date ud, ud_guests ud) of
             (Some loc, Some checkin, Some checkout, Some guests) \<Rightarrow>
               (let listings =
                      search_listings R http loc (strftime checkin) (strftime checkout) guests
                        (Some min_price) (Some max_price)
                        (case ud_selected_amenities ud of
                           None \<Rightarrow> AmenityList []
                         | Some sel \<Rightarrow> sel)
                in if listings = [] then
                     (ud, Return_END,
                      [ReplyText searching_text None, EditText no_results_text None])
                   else
                     (case show_listings R listings ud of
                        (ud1, sent, Some e) \<Rightarrow>
                          (ud1, Return PRICE_RANGE,
                           ReplyText searching_text None #
                           EditText (found_text (length listings)) None #
                           sent @ [ReplyText went_wrong_text None])
                      | (ud1, sent, None) \<Rightarrow>
                          (case final_message R loc checkin checkout guests min_price max_price
                                  (ud_selected_amenities ud1) of
                             Inl e \<Rightarrow>
                               (ud1, Return PRICE_RANGE,
                                ReplyText searching_text None #
                                EditText (found_text (length listings)) None #
                                sent @ [ReplyText went_wrong_text None])
                           | Inr summary \<Rightarrow>
                               (ud1, Return_END,
                                ReplyText searching_text None #
                                EditText (found_text (length listings)) None #
                                sent @ [ReplyText summary None]))))
           | _ \<Rightarrow>
               (ud, Return PRICE_RANGE,
                [ReplyText searching_text None, ReplyText went_wrong_text None])))"

definition cancel :: "user_data \<Rightarrow> user_data \<times> ret \<times> action list" where
  "cancel ud =
     (ud, Return_END, [ReplyText ''Search cancelled. Use /search to start a new search!'' None])"

section \<open>Feedback on a listing\<close>

text \<open>
  The rows of the two tables, without the generated primary key of a feedback row and
  the timestamps; the columns \<^verbatim>\<open>bedrooms\<close> and \<^verbatim>\<open>bathrooms\<close> are \<^verbatim>\<open>Integer\<close>, the
  other features \<^verbatim>\<open>Float\<close>. Users are never deleted, so a new user's key is the number
  of users plus one.
\<close>

record user_row =
  u_id :: nat
  u_telegram_id :: string

record listing_feedback =
  fb_user_id :: nat
  fb_listing_id :: string
  fb_liked :: bool
  fb_price :: pyfloat
  fb_bedrooms :: int
  fb_bathrooms :: int
  fb_rating :: pyfloat
  fb_location_score :: pyfloat
  fb_cleanliness_score :: pyfloat
  fb_value_score :: pyfloat

record database =
  db_users :: "user_row list"
  db_feedback :: "listing_feedback list"

text \<open>The dictionary \<^verbatim>\<open>feedback_data\<close> that the handler builds from the cached listing.\<close>

record feedback_data =
  fd_id :: string
  fd_price :: pyfloat
  fd_bedrooms :: int
  fd_bathrooms :: pyfloat
  fd_rating :: pyfloat
  fd_location_score :: pyfloat
  fd_cleanliness_score :: pyfloat
  fd_value_score :: pyfloat

text \<open>
  The recommendation model is known by the calls of \<^verbatim>\<open>update_from_feedback\<close> it has
  received, in order.
\<close>

type_synonym classifier = "(feedback_data \<times> bool) list"

text \<open>\<^verbatim>\<open>ListingFeedback.from_listing\<close>: \<open>None\<close> when a conversion raises.\<close>

definition from_listing :: "feedback_data \<Rightarrow> nat \<Rightarrow> bool \<Rightarrow> listing_feedback option" where
  "from_listing fd user_id liked =
     (case int_of_float (fd_bathrooms fd) of
        Inl e \<Rightarrow> None
      | Inr bathrooms_int \<Rightarrow>
          Some \<lparr>fb_user_id = user_id,
                fb_listing_id = fd_id fd,
                fb_liked = liked,
                fb_price = fd_price fd,
                fb_bedrooms = fd_bedrooms fd,
                fb_bathrooms = bathrooms_int,
                fb_rating = fd_rating fd,
                fb_location_score = fd_location_score fd,
                fb_cleanliness_score = fd_cleanliness_score fd,
                fb_value_score = fd_value_score fd\<rparr>)"

definition not_found_text :: string where
  "not_found_text =
     ''Sorry, I couldn't find this listing's information. Please try searching again.''"

definition feedback_error_text :: string where
  "feedback_error_text = ''Sorry, there was an error processing your feedback.''"

definition thanks_text :: "string \<Rightarrow> string" where
  "thanks_text emoji =
     emoji @ '' Thanks for your feedback! I'll use this to improve your recommendations.'' @
     ''\<newline>The more feedback you provide, the better I'll understand your preferences!''"

text \<open>The user with this Telegram id, created and committed if there is none.\<close>

definition get_or_create_user :: "database \<Rightarrow> string \<Rightarrow> database \<times> user_row" where
  "get_or_create_user db tid =
     (case find (\<lambda>u. u_telegram_id u = tid) (db_users db) of
        Some u \<Rightarrow> (db, u)
      | None \<Rightarrow>
          (let u = \<lparr>u_id = Suc (length (db_users db)), u_telegram_id = tid\<rparr>
           in (db\<lparr>db_users := db_users db @ [u]\<rparr>, u)))"

text \<open>
  \<^verbatim>\<open>handle_listing_feedback\<close>, on the database, the recommendation model and the
  session; \<open>effective_user_id\<close> is \<^verbatim>\<open>update.effective_user.id\<close>.
\<close>

definition handle_listing_feedback ::
  "int \<Rightarrow> string \<Rightarrow> database \<times> classifier \<times> user_data \<Rightarrow>
   (database \<times> classifier \<times> user_data) \<times> action list" where
  "handle_listing_feedback effective_user_id query_data s =
     (case s of
        (db, model, ud) \<Rightarrow>
          (let data = py_split (CHR ''_'') query_data
           in if length data < 3 then
                ((db, model, ud), [Answer, ReplyText feedback_error_text None])
              else
                (let listing_id = data ! 1; action = data ! 2
                 in case ud_listings ud listing_id of
                      None \<Rightarrow>
                        ((db, model, ud),
                         [Answer, EditReplyMarkup None, ReplyText not_found_text None])
                    | Some l \<Rightarrow>
                        (case get_or_create_user db (str_int effective_user_id) of
                           (db1, user) \<Rightarrow>
                             (case int_of_float (bedrooms l) of
                                Inl e \<Rightarrow>
                                  ((db1, model, ud),
                                   [Answer, ReplyText feedback_error_text None])
                              | Inr bedrooms_int \<Rightarrow>
                                  (let fd = \<lparr>fd_id = listing_id,
                                             fd_price = Finite (of_int (price l)),
                                             fd_bedrooms = bedrooms_int,
                                             fd_bathrooms = bathrooms l,
                                             fd_rating = rating l,
                                             fd_location_score = Finite 0,
                                             fd_cleanliness_score = Finite 0,
                                             fd_value_score = Finite 0\<rparr>;
                                       liked = (action = ''like'')
                                   in case from_listing fd (u_id user) liked of
                                        None \<Rightarrow>
                                          ((db1, model, ud),
                                           [Answer, ReplyText feedback_error_text None])
                                      | Some feedback \<Rightarrow>
                                          (let emoji = (if liked then thumbs_up else thumbs_down)
                                           in ((db1\<lparr>db_feedback := db_feedback db1 @ [feedback]\<rparr>,
                                                model @ [(fd, liked)], ud),
                                               [Answer,
                                                EditReplyMarkup
                                                  (Some [[InlineKeyboardButton
                                                            (''You rated '' @ emoji) ''dummy'']]),
                                                ReplyText (thanks_text emoji) None]))))))))"

section \<open>Dispatch\<close>

text \<open>
  An update is a command, a text message that is not a command, or a pressed button.
  \<open>conversation\<close> is the state of the conversation handler for the user, \<open>None\<close>
  outside a conversation.
\<close>

datatype update = Command string | TextMessage string | CallbackQuery string

definition starts_with :: "string \<Rightarrow> string \<Rightarrow> bool" where
  "starts_with p s = (take (length p) s = p)"

text \<open>
  The state after a handler has returned: \<^verbatim>\<open>None\<close> and an exception leave it, \<^verbatim>\<open>END\<close>
  leaves the conversation.
\<close>

definition next_state :: "state option \<Rightarrow> ret \<Rightarrow> state option" where
  "next_state current r =
     (case r of
        Return_None \<Rightarrow> current
      | Return st \<Rightarrow> Some st
      | Return_END \<Rightarrow> None
      | Raises e \<Rightarrow> current)"

text \<open>
  The conversation handler of \<^verbatim>\<open>_setup_handlers\<close>: the entry point \<^verbatim>\<open>/search\<close>, the
  handlers of each state, the fallback \<^verbatim>\<open>/cancel\<close>. \<open>None\<close> when no handler of the
  conversation takes the update.
\<close>

definition conversation_handler ::
  "runtime \<Rightarrow> http_get \<Rightarrow> datetime \<Rightarrow> state option \<Rightarrow> update \<Rightarrow> user_data \<Rightarrow>
   (user_data \<times> ret \<times> action list) option" where
  "conversation_handler R http now conversation u ud =
     (case conversation of
        None \<Rightarrow>
          (case u of
             Command c \<Rightarrow> if c = ''search'' then Some (search_start ud) else None
           | _ \<Rightarrow> None)
      | Some st \<Rightarrow>
          (case (st, u) of
             (LOCATION, TextMessage t) \<Rightarrow> Some (location_handler now t ud)
           | (SELECT_CHECKIN, CallbackQuery q) \<Rightarrow>
               if starts_with ''nav'' q \<or> starts_with ''cal'' q
               then Some (handle_calendar now q ud) else None
           | (SELECT_CHECKIN, TextMessage t) \<Rightarrow> Some (checkin_fallback ud)
           | (SELECT_CHECKOUT, CallbackQuery q) \<Rightarrow>
               if starts_with ''nav'' q \<or> starts_with ''cal'' q
               then Some (handle_calendar now q ud) else None
           | (SELECT_CHECKOUT, TextMessage t) \<Rightarrow> Some (checkout_fallback ud)
           | (GUESTS, TextMessage t) \<Rightarrow> Some (guests_handler t ud)
           | (AMENITIES, CallbackQuery q) \<Rightarrow> Some (amenity_callback R q ud)
           | (PRICE_RANGE, TextMessage t) \<Rightarrow> Some (price_range R http t ud)
           | (_, Command c) \<Rightarrow> if c = ''cancel'' then Some (cancel ud) else None
           | _ \<Rightarrow> None))"

text \<open>
  The whole bot for one user: the conversation state, the session, the database and the
  recommendation model.
\<close>

record bot =
  conversation :: "state option"
  session :: user_data
  db :: database
  model :: classifier

text \<open>
  One update. The feedback handler is registered before the conversation handler and
  takes every button whose data starts with \<^verbatim>\<open>feedback_\<close>; a button that the
  conversation does not take reaches \<^verbatim>\<open>button_callback\<close>, which only answers it.
\<close>

definition process_update ::
  "runtime \<Rightarrow> http_get \<Rightarrow> datetime \<Rightarrow> int \<Rightarrow> update \<Rightarrow> bot \<Rightarrow> bot \<times> action list" where
  "process_update R http now effective_user_id u b =
     (let via_conversation =
            (case conversation_handler R http now (conversation b) u (session b) of
               None \<Rightarrow> (b, (case u of CallbackQuery q \<Rightarrow> [Answer] | _ \<Rightarrow> []))
             | Some (ud, r, sent) \<Rightarrow>
                 (b\<lparr>conversation := next_state (conversation b) r, session := ud\<rparr>, sent))
      in case u of
           CallbackQuery q \<Rightarrow>
             if starts_with ''feedback_'' q then
               (case handle_listing_feedback effective_user_id q (db b, model b, session b) of
                  ((db1, model1, ud1), sent) \<Rightarrow>
                    (b\<lparr>session := ud1, db := db1, model := model1\<rparr>, sent))
             else via_conversation
         | _ \<Rightarrow> via_conversation)"



section \<open>The keyboards on the screen\<close>

text \<open>A month strictly before the month of \<open>now\<close>.\<close>

definition month_before :: "int \<Rightarrow> int \<Rightarrow> datetime \<Rightarrow> bool" where
  "month_before yr mo now = (yr < year now \<or> (yr = year now \<and> mo < month now))"

text \<open>The inline keyboards that a list of actions puts on the screen.\<close>

fun markup_of :: "action \<Rightarrow> markup option" where
  "markup_of (ReplyText t kb) = kb"
| "markup_of (EditText t kb) = kb"
| "markup_of (EditReplyMarkup kb) = kb"
| "markup_of Answer = None"
| "markup_of (AnswerAlert t) = None"

definition keyboards_sent :: "action list \<Rightarrow> markup list" where
  "keyboards_sent sent = List.map_filter markup_of sent"

text \<open>
  The updates a user can cause: any command, any text, and the data of a button of a
  keyboard that the bot has sent.
\<close>

definition offered :: "markup list \<Rightarrow> update \<Rightarrow> bool" where
  "offered kbs u =
     (case u of
        CallbackQuery q \<Rightarrow> q \<in> set (map callback_data (concat (concat kbs)))
      | _ \<Rightarrow> True)"

text \<open>
  The states of the bot that a user reaches from the bot \<open>b0\<close> with no keyboard on the
  screen while \<^verbatim>\<open>datetime.now()\<close> stays at \<open>now\<close>, each with the keyboards sent so far.
\<close>

inductive reachable ::
  "runtime \<Rightarrow> http_get \<Rightarrow> datetime \<Rightarrow> int \<Rightarrow> bot \<Rightarrow> bot \<times> markup list \<Rightarrow> bool"
  for R http now uid b0 where
    start: "reachable R http now uid b0 (b0, [])"
  | step: "reachable R http now uid b0 (b, kbs) \<Longrightarrow> offered kbs u \<Longrightarrow>
           process_update R http now uid u b = (b', sent) \<Longrightarrow>
           reachable R http now uid b0 (b', kbs @ keyboards_sent sent)"


section \<open>Example inputs\<close>

text \<open>
  Concrete inputs at which the theorems below are instantiated. The example runtime
  converts a string of digits to the float of its value and is arbitrary elsewhere.
\<close>

definition example_runtime :: runtime where
  "example_runtime =
     \<lparr>rt_float = (\<lambda>s. if s \<noteq> [] \<and> list_all is_digit s
                        then Some (Finite (of_nat (nat_of_digits s))) else None),
      rt_repr = (\<lambda>v. ''?''),
      rt_hash = (\<lambda>s. int (length s)),
      rt_list = (\<lambda>s. filter (\<lambda>k. k \<in> s) (map fst amenities_options)),
      rt_fmt1 = (\<lambda>f. ''?''),
      rt_fstr = (\<lambda>f. ''?'')\<rparr>"

definition empty_session :: user_data where
  "empty_session =
     \<lparr>ud_location = None, ud_checkin_date = None, ud_checkout_date = None, ud_dates = None,
      ud_calendar_state = None, ud_guests = None, ud_selected_amenities = None,
      ud_listings = Map.empty\<rparr>"

definition empty_database :: database where
  "empty_database = \<lparr>db_users = [], db_feedback = []\<rparr>"

definition example_http :: http_get where
  "example_http = (\<lambda>params. Response 500 NotJson)"

definition example_now :: datetime where
  "example_now = \<lparr>year = 2025, month = 6, day = 15\<rparr>"

definition amenities_bot :: bot where
  "amenities_bot =
     \<lparr>conversation = Some AMENITIES,
      session = empty_session\<lparr>ud_selected_amenities := Some (AmenitySet {''wifi''})\<rparr>,
      db = empty_database, model = []\<rparr>"




definition complete_session :: user_data where
  "complete_session =
     empty_session
       \<lparr>ud_location := Some ''Paris'',
        ud_checkin_date := Some \<lparr>year = 2025, month = 7, day = 1\<rparr>,
        ud_checkout_date := Some \<lparr>year = 2025, month = 7, day = 3\<rparr>,
        ud_guests := Some 2,
        ud_selected_amenities := Some (AmenityList [])\<rparr>"

definition half_bath_listing :: listing where
  "half_bath_listing =
     \<lparr>title = ''Loft'', price = 120, rating = Finite (24 / 5), reviews = 10,
      location = ''Paris'', url = ''https://www.airbnb.com/rooms/42'',
      bedrooms = Finite 2, bathrooms = Finite (3 / 2), max_guests = 4,
      amenities = JList [JStr ''Wifi'']\<rparr>"

definition feedback_bot :: bot where
  "feedback_bot =
     \<lparr>conversation = None,
      session = complete_session\<lparr>ud_listings := [''42'' \<mapsto> half_bath_listing]\<rparr>,
      db = empty_database, model = []\<rparr>"



definition price_range_bot :: bot where
  "price_range_bot =
     \<lparr>conversation = Some PRICE_RANGE, session = complete_session,
      db = empty_database, model = []\<rparr>"

definition checkout_bot :: bot where
  "checkout_bot =
     \<lparr>conversation = Some SELECT_CHECKOUT,
      session = empty_session
        \<lparr>ud_location := Some ''Paris'',
         ud_checkin_date := Some \<lparr>year = 2025, month = 7, day = 1\<rparr>,
         ud_calendar_state := Some SELECT_CHECKOUT\<rparr>,
      db = empty_database, model = []\<rparr>"

definition location_bot :: bot where
  "location_bot =
     \<lparr>conversation = Some LOCATION, session = empty_session,
      db = empty_database, model = []\<rparr>"

definition checkin_bot :: bot where
  "checkin_bot =
     \<lparr>conversation = Some SELECT_CHECKIN,
      session = empty_session\<lparr>ud_location := Some ''Paris''\<rparr>,
      db = empty_database, model = []\<rparr>"

text \<open>A day of the month before the one of \<open>example_now\<close>.\<close>

definition may_now :: datetime where
  "may_now = \<lparr>year = 2025, month = 5, day = 20\<rparr>"


section \<open>Splitting strings\<close>

lemma py_split_not_Nil: "py_split c s \<noteq> []"
  by (induction s) (auto split: list.splits)

lemma py_split_no_sep: "c \<notin> set s \<Longrightarrow> py_split c s = [s]"
  by (induction s) auto

lemma py_split_append: "c \<notin> set a \<Longrightarrow> py_split c (a @ c # b) = a # py_split c b"
  by (induction a) (auto simp: py_split_not_Nil split: list.splits)

lemma split_amenity_token:
  "CHR ''_'' \<notin> set key \<Longrightarrow>
   py_split (CHR ''_'') (''amenity_'' @ key @ ''_toggle'') = [''amenity'', key, ''toggle'']"
proof -
  assume k: "CHR ''_'' \<notin> set key"
  have "py_split (CHR ''_'') (''amenity'' @ CHR ''_'' # (key @ CHR ''_'' # ''toggle''))
        = ''amenity'' # py_split (CHR ''_'') (key @ CHR ''_'' # ''toggle'')"
    by (rule py_split_append) simp
  also have "py_split (CHR ''_'') (key @ CHR ''_'' # ''toggle'') = key # py_split (CHR ''_'') ''toggle''"
    using k by (rule py_split_append)
  also have "py_split (CHR ''_'') ''toggle'' = [''toggle'']"
    by (rule py_split_no_sep) simp
  finally show ?thesis by simp
qed

lemma amenity_token_not_done: "''amenity_'' @ key @ ''_toggle'' \<noteq> ''amenities_done''"
  by simp

lemma amenity_callback_toggle:
  assumes "CHR ''_'' \<notin> set key"
    and "ud_selected_amenities ud = Some (AmenitySet s)"
  shows "amenity_callback R (''amenity_'' @ key @ ''_toggle'') ud =
     (ud\<lparr>ud_selected_amenities := Some (AmenitySet (if key \<in> s then s - {key} else insert key s))\<rparr>,
      Return AMENITIES,
      [EditReplyMarkup (Some (amenities_keyboard (\<lambda>k. k \<in> (if key \<in> s then s - {key} else insert key s)))), Answer])"
  using assms(2) split_amenity_token[OF assms(1)]
  unfolding amenity_callback_def
  by (simp add: Let_def del: py_split.simps)

lemma not_feedback_amenity: "\<not> starts_with ''feedback_'' (''amenity_'' @ key @ ''_toggle'')"
  by (simp add: starts_with_def)

lemma session_selection_same:
  "ud_selected_amenities ud = x \<Longrightarrow> ud\<lparr>ud_selected_amenities := x\<rparr> = ud"
  by (cases ud) simp

lemma bot_conversation_same:
  "conversation b = c \<Longrightarrow> b\<lparr>conversation := c\<rparr> = b"
  by (cases b) simp


section \<open>Printing and reading integers\<close>

lemma below_ten: "d < 10 \<Longrightarrow> d \<in> {0, 1, 2, 3, 4, 5, 6, 7, 8, 9 :: nat}"
  by auto

lemma digit_val_digit_char: "d < 10 \<Longrightarrow> digit_val (digit_char d) = d"
  using below_ten[of d] by (auto simp: digit_char_def digit_val_def)

lemma is_digit_digit_char: "d < 10 \<Longrightarrow> is_digit (digit_char d)"
  using below_ten[of d] by (auto simp: digit_char_def is_digit_def)

lemma str_nat_digits: "list_all is_digit (str_nat n)"
proof (induction n rule: str_nat.induct)
  case (1 n)
  show ?case
  proof (cases "n < 10")
    case True
    then show ?thesis
      by (subst str_nat.simps) (simp add: is_digit_digit_char)
  next
    case False
    then show ?thesis
      using 1 by (subst str_nat.simps) (simp add: is_digit_digit_char)
  qed
qed

lemma str_nat_not_Nil: "str_nat n \<noteq> []"
  by (subst str_nat.simps) simp

lemma nat_of_digits_snoc: "nat_of_digits (xs @ [c]) = 10 * nat_of_digits xs + digit_val c"
  by (simp add: nat_of_digits_def)

lemma nat_of_digits_str_nat: "nat_of_digits (str_nat n) = n"
proof (induction n rule: str_nat.induct)
  case (1 n)
  show ?case
  proof (cases "n < 10")
    case True
    then show ?thesis
      by (subst str_nat.simps) (simp add: nat_of_digits_def digit_val_digit_char)
  next
    case False
    then show ?thesis
      using 1 by (subst str_nat.simps) (simp add: nat_of_digits_snoc digit_val_digit_char)
  qed
qed

lemma digit_not_special:
  "is_digit c \<Longrightarrow> c \<noteq> CHR ''_'' \<and> c \<noteq> CHR ''-'' \<and> c \<noteq> CHR ''+'' \<and> c \<noteq> CHR '' '' \<and> \<not> is_space c"
  by (auto simp: is_digit_def is_space_def)

lemma digits_no_char:
  "list_all is_digit s \<Longrightarrow> \<not> is_digit c \<Longrightarrow> c \<notin> set s"
  by (auto simp: list_all_iff)

lemma digit_groups_digits:
  assumes "list_all is_digit s" "s \<noteq> []"
  shows "digit_groups s = Some (nat_of_digits s)"
proof -
  have "CHR ''_'' \<notin> set s"
    using assms(1) by (rule digits_no_char) (simp add: is_digit_def)
  then have "py_split (CHR ''_'') s = [s]"
    by (rule py_split_no_sep)
  then show ?thesis
    using assms by (simp add: digit_groups_def)
qed

lemma py_strip_id:
  assumes "s \<noteq> []" "\<not> is_space (hd s)" "\<not> is_space (last s)"
  shows "py_strip s = s"
proof -
  have a: "dropWhile is_space s = s"
    using assms(1,2) by (cases s) simp_all
  have "rev s \<noteq> []" "\<not> is_space (hd (rev s))"
    using assms(1,3) by (simp_all add: hd_rev)
  then have "dropWhile is_space (rev s) = rev s"
    by (cases "rev s") simp_all
  then show ?thesis
    by (simp add: py_strip_def a)
qed

lemma str_nat_ends:
  "is_digit (hd (str_nat n))" "is_digit (last (str_nat n))"
  using str_nat_digits[of n] str_nat_not_Nil[of n]
  by (simp_all add: list_all_iff)

lemma py_int_str_int: "py_int (str_int y) = Some y"
proof (cases "y < 0")
  case True
  let ?r = "str_nat (nat (- y))"
  have "\<not> is_space (CHR ''-'')"
    by (simp add: is_space_def)
  moreover have "\<not> is_space (last (CHR ''-'' # ?r))"
    using str_nat_ends(2)[of "nat (- y)"] str_nat_not_Nil[of "nat (- y)"]
    by (simp add: digit_not_special)
  ultimately have s: "py_strip (CHR ''-'' # ?r) = CHR ''-'' # ?r"
    by (intro py_strip_id) simp_all
  show ?thesis
    using True
    by (simp add: py_int_def str_int_def s digit_groups_digits str_nat_digits str_nat_not_Nil
        nat_of_digits_str_nat)
next
  case False
  let ?r = "str_nat (nat y)"
  obtain c r where cr: "?r = c # r"
    using str_nat_not_Nil[of "nat y"] by (cases ?r) auto
  have d: "is_digit c"
    using str_nat_ends(1)[of "nat y"] cr by simp
  have s: "py_strip ?r = ?r"
    using str_nat_ends[of "nat y"] str_nat_not_Nil[of "nat y"]
    by (intro py_strip_id) (simp_all add: digit_not_special)
  have g: "digit_groups (c # r) = Some (nat y)"
    unfolding cr[symmetric]
    by (simp add: digit_groups_digits str_nat_digits str_nat_not_Nil nat_of_digits_str_nat)
  have "py_int (c # r) = Some y"
    using False digit_not_special[OF d] s[unfolded cr]
    by (simp add: py_int_def g)
  then show ?thesis
    using False by (simp add: str_int_def cr)
qed

lemma str_int_inject: "str_int a = str_int b \<Longrightarrow> a = b"
  by (metis option.inject py_int_str_int)

lemma str_int_chars: "c \<in> set (str_int y) \<Longrightarrow> is_digit c \<or> c = CHR ''-''"
  using str_nat_digits by (auto simp: str_int_def list_all_iff split: if_splits)

lemma str_int_no_underscore: "CHR ''_'' \<notin> set (str_int y)"
  using str_int_chars[of "CHR ''_''" y] by (auto simp: is_digit_def)

lemma str_int_no_space: "CHR '' '' \<notin> set (str_int y)"
  using str_int_chars[of "CHR '' ''" y] by (auto simp: is_digit_def)

lemma str_int_not_Nil: "str_int y \<noteq> []"
  by (simp add: str_int_def str_nat_not_Nil)


section \<open>Printing and reading dates\<close>

lemma length_str_nat:
  "length (str_nat n) = (if n < 10 then 1 else Suc (length (str_nat (n div 10))))"
  by (subst str_nat.simps) simp

lemma length_str_nat_1: "n < 10 \<Longrightarrow> length (str_nat n) = 1"
  by (simp add: length_str_nat)

lemma length_str_nat_2: "10 \<le> n \<Longrightarrow> n < 100 \<Longrightarrow> length (str_nat n) = 2"
  by (subst length_str_nat) (simp add: length_str_nat_1)

lemma length_str_nat_3: "100 \<le> n \<Longrightarrow> n < 1000 \<Longrightarrow> length (str_nat n) = 3"
  by (subst length_str_nat) (simp add: length_str_nat_2)

lemma length_str_nat_4: "1000 \<le> n \<Longrightarrow> n < 10000 \<Longrightarrow> length (str_nat n) = 4"
  by (subst length_str_nat) (simp add: length_str_nat_3)

lemma length_str_nat_ge_1: "1 \<le> length (str_nat n)"
  by (subst length_str_nat) simp

lemma length_str_nat_ge_2: "10 \<le> n \<Longrightarrow> 2 \<le> length (str_nat n)"
  using length_str_nat_ge_1[of "n div 10"] by (subst length_str_nat) simp

lemma length_str_nat_ge_3: "100 \<le> n \<Longrightarrow> 3 \<le> length (str_nat n)"
  using length_str_nat_ge_2[of "n div 10"] by (subst length_str_nat) simp

lemma length_str_nat_ge_4: "1000 \<le> n \<Longrightarrow> 4 \<le> length (str_nat n)"
  using length_str_nat_ge_3[of "n div 10"] by (subst length_str_nat) simp

lemma length_str_nat_ge_5: "10000 \<le> n \<Longrightarrow> 5 \<le> length (str_nat n)"
  using length_str_nat_ge_4[of "n div 10"] by (subst length_str_nat) simp

lemma length_str_nat_4_iff: "length (str_nat n) = 4 \<longleftrightarrow> 1000 \<le> n \<and> n < 10000"
proof
  assume l: "length (str_nat n) = 4"
  show "1000 \<le> n \<and> n < 10000"
  proof (rule ccontr)
    assume "\<not> (1000 \<le> n \<and> n < 10000)"
    then consider "n < 10" | "10 \<le> n \<and> n < 100" | "100 \<le> n \<and> n < 1000" | "10000 \<le> n"
      by linarith
    then show False
      using l length_str_nat_ge_5[of n]
      by cases (simp_all add: length_str_nat_1 length_str_nat_2 length_str_nat_3)
  qed
qed (simp add: length_str_nat_4)

lemma nat_of_digits_zero_Cons: "nat_of_digits (CHR ''0'' # s) = nat_of_digits s"
  by (simp add: nat_of_digits_def digit_val_def)

lemma fmt_02d_digits: "0 \<le> i \<Longrightarrow> list_all is_digit (fmt_02d i)"
  by (simp add: fmt_02d_def str_int_def str_nat_digits is_digit_def)

lemma fmt_02d_value: "0 \<le> i \<Longrightarrow> nat_of_digits (fmt_02d i) = nat i"
  by (simp add: fmt_02d_def str_int_def nat_of_digits_zero_Cons nat_of_digits_str_nat)

lemma fmt_02d_length: "0 \<le> i \<Longrightarrow> i < 100 \<Longrightarrow> length (fmt_02d i) = 2"
  by (simp add: fmt_02d_def str_int_def length_str_nat_1 length_str_nat_2)

lemma hyphen_not_digit: "\<not> is_digit (CHR ''-'')"
  by (simp add: is_digit_def)

lemma underscore_not_digit: "\<not> is_digit (CHR ''_'')"
  by (simp add: is_digit_def)

lemma fmt_02d_no_hyphen: "0 \<le> i \<Longrightarrow> CHR ''-'' \<notin> set (fmt_02d i)"
  by (rule digits_no_char[OF fmt_02d_digits hyphen_not_digit])

lemma fmt_02d_no_underscore: "0 \<le> i \<Longrightarrow> CHR ''_'' \<notin> set (fmt_02d i)"
  by (rule digits_no_char[OF fmt_02d_digits underscore_not_digit])

lemma fmt_02d_not_space: "0 \<le> i \<Longrightarrow> dropWhile is_space (fmt_02d i) = fmt_02d i"
proof -
  assume a: "0 \<le> i"
  have "fmt_02d i \<noteq> []"
    by (simp add: fmt_02d_def str_int_not_Nil)
  then obtain c r where cr: "fmt_02d i = c # r"
    by (cases "fmt_02d i") auto
  then have "is_digit c"
    using fmt_02d_digits[OF a] by simp
  then show ?thesis
    using cr by (simp add: digit_not_special)
qed

lemma upto_1_12: "[1..12::int] = [1, 2, 3, 4, 5, 6, 7, 8, 9, 10, 11, 12]"
  by code_simp

lemma month_cases:
  assumes "1 \<le> m" "m \<le> 12"
  shows "m \<in> {1, 2, 3, 4, 5, 6, 7, 8, 9, 10, 11, 12 :: int}"
proof -
  have "m \<in> set [1..12]"
    using assms by simp
  then show ?thesis
    unfolding upto_1_12 by simp
qed

lemma ndays_of_bounds: "1 \<le> m \<Longrightarrow> m \<le> 12 \<Longrightarrow> 28 \<le> ndays_of y m \<and> ndays_of y m \<le> 31"
  using month_cases[of m] by (auto simp: ndays_of_def mdays_def)

lemma split_date_str:
  assumes "0 \<le> yr" "0 \<le> mo" "0 \<le> dy"
  shows "py_split (CHR ''-'') (date_str yr mo dy) = [str_int yr, fmt_02d mo, fmt_02d dy]"
proof -
  have "str_int yr = str_nat (nat yr)"
    using assms(1) by (simp add: str_int_def)
  then have y: "CHR ''-'' \<notin> set (str_int yr)"
    using digits_no_char[OF str_nat_digits hyphen_not_digit] by simp
  have "py_split (CHR ''-'') (str_int yr @ CHR ''-'' # (fmt_02d mo @ CHR ''-'' # fmt_02d dy)) =
        str_int yr # py_split (CHR ''-'') (fmt_02d mo @ CHR ''-'' # fmt_02d dy)"
    using y by (rule py_split_append)
  also have "py_split (CHR ''-'') (fmt_02d mo @ CHR ''-'' # fmt_02d dy) =
        fmt_02d mo # py_split (CHR ''-'') (fmt_02d dy)"
    using fmt_02d_no_hyphen[OF assms(2)] by (rule py_split_append)
  also have "py_split (CHR ''-'') (fmt_02d dy) = [fmt_02d dy]"
    using fmt_02d_no_hyphen[OF assms(3)] by (rule py_split_no_sep)
  finally show ?thesis
    by (simp add: date_str_def)
qed

lemma strptime_date_str:
  assumes "0 \<le> yr" "1 \<le> mo" "mo \<le> 12" "1 \<le> dy" "dy \<le> 31"
  shows "strptime (date_str yr mo dy) =
         (if 1000 \<le> yr \<and> yr \<le> 9999 \<and> dy \<le> ndays_of yr mo
          then Inr \<lparr>year = yr, month = mo, day = dy\<rparr> else Inl ValueError)"
proof -
  have sp: "py_split (CHR ''-'') (date_str yr mo dy) = [str_int yr, fmt_02d mo, fmt_02d dy]"
    using assms by (intro split_date_str) simp_all
  have y: "str_int yr = str_nat (nat yr)"
    using assms(1) by (simp add: str_int_def)
  have len: "length (str_int yr) = 4 \<longleftrightarrow> 1000 \<le> yr \<and> yr \<le> 9999"
    using assms(1) unfolding y length_str_nat_4_iff by auto
  have dg: "list_all is_digit (str_int yr)"
    unfolding y by (rule str_nat_digits)
  have yv: "int (nat_of_digits (str_int yr)) = yr"
    unfolding y using assms(1) by (simp add: nat_of_digits_str_nat)
  have mv: "int (nat_of_digits (fmt_02d mo)) = mo"
    using assms(2) by (simp add: fmt_02d_value)
  have dv: "int (nat_of_digits (dropWhile is_space (fmt_02d dy))) = dy"
    using assms(4) by (simp add: fmt_02d_value fmt_02d_not_space)
  have mn: "1 \<le> nat mo" "nat mo \<le> 12" "1 \<le> nat dy" "nat dy \<le> 31"
    using assms by linarith+
  have mf: "month_field (fmt_02d mo)"
    using assms(2,3) mn
    by (simp add: month_field_def fmt_02d_digits fmt_02d_value fmt_02d_length)
  have df: "day_field (fmt_02d dy)"
    using assms(4,5) mn
    by (simp add: day_field_def fmt_02d_digits fmt_02d_value fmt_02d_length)
  have "strptime (date_str yr mo dy) =
        (if length (str_int yr) = 4 then
           (if 1 \<le> yr \<and> dy \<le> ndays_of yr mo
            then Inr \<lparr>year = yr, month = mo, day = dy\<rparr> else Inl ValueError)
         else Inl ValueError)"
    unfolding strptime_def sp by (simp add: dg mf df yv mv dv Let_def)
  then show ?thesis
    unfolding len by auto
qed

lemma strptime_negative_year:
  assumes "yr < 0"
  shows "strptime (date_str yr mo dy) = Inl ValueError"
proof -
  obtain w ws where ws: "py_split (CHR ''-'') (str_nat (nat (- yr)) @ ''-'' @ fmt_02d mo @ ''-'' @ fmt_02d dy) = w # ws"
    using py_split_not_Nil by (meson list.exhaust)
  have "py_split (CHR ''-'') (date_str yr mo dy) = [] # w # ws"
    using assms ws by (simp add: date_str_def str_int_def)
  then show ?thesis
    by (simp add: strptime_def split: list.splits)
qed


section \<open>The data of the calendar buttons\<close>

lemma set_py_split: "x \<in> set s \<Longrightarrow> x = c \<or> (\<exists>w \<in> set (py_split c s). x \<in> set w)"
proof (induction s)
  case Nil
  then show ?case by simp
next
  case (Cons a s)
  obtain w ws where ws: "py_split c s = w # ws"
    using py_split_not_Nil[of c s] by (cases "py_split c s") auto
  show ?case
  proof (cases "a = c")
    case True
    then show ?thesis
      using Cons by auto
  next
    case False
    then show ?thesis
      using Cons ws by auto
  qed
qed

lemma day_field_chars: "day_field ds \<Longrightarrow> x \<in> set ds \<Longrightarrow> is_digit x \<or> x = CHR '' ''"
proof -
  assume df: "day_field ds" and x: "x \<in> set ds"
  show ?thesis
  proof (cases "list_all is_digit ds")
    case True
    then show ?thesis using x by (simp add: list_all_iff)
  next
    case False
    with df have l: "length ds = 2" and h: "hd ds = CHR '' ''" and d: "is_digit (ds ! 1)"
      by (auto simp: day_field_def)
    from l obtain a b where ab: "ds = [a, b]"
      by (cases ds; cases "tl ds") auto
    then show ?thesis
      using h d x by auto
  qed
qed

lemma strptime_chars:
  assumes "strptime s = Inr d" "x \<in> set s"
  shows "is_digit x \<or> x = CHR '' '' \<or> x = CHR ''-''"
proof -
  from assms(1) obtain ys ms ds where
    sp: "py_split (CHR ''-'') s = [ys, ms, ds]"
    and f: "list_all is_digit ys" "month_field ms" "day_field ds"
    by (auto simp: strptime_def split: list.splits if_splits)
  from set_py_split[OF assms(2), of "CHR ''-''"] sp
  have "x = CHR ''-'' \<or> x \<in> set ys \<or> x \<in> set ms \<or> x \<in> set ds"
    by auto
  then show ?thesis
    using f day_field_chars[OF f(3)]
    by (auto simp: list_all_iff month_field_def)
qed

lemma strptime_no_underscore: "strptime s = Inr d \<Longrightarrow> CHR ''_'' \<notin> set s"
  using strptime_chars[of s d "CHR ''_''"] by (auto simp: is_digit_def)

lemma split_cal_token:
  "CHR ''_'' \<notin> set s \<Longrightarrow> py_split (CHR ''_'') (''cal_'' @ s) = [''cal'', s]"
proof -
  assume a: "CHR ''_'' \<notin> set s"
  have "py_split (CHR ''_'') (''cal'' @ CHR ''_'' # s) = ''cal'' # py_split (CHR ''_'') s"
    by (rule py_split_append) simp
  then show ?thesis
    using py_split_no_sep[OF a] by simp
qed

lemma dt_le_iff_not_less: "dt_le a b \<longleftrightarrow> \<not> dt_less b a"
  by (auto simp: dt_le_def dt_less_def)

lemma cal_token_prefix:
  "starts_with ''cal'' (''cal_'' @ s)" "\<not> starts_with ''feedback_'' (''cal_'' @ s)"
  "''cal_'' @ s \<noteq> ''ignore''"
  by (simp_all add: starts_with_def)


section \<open>Amenity selection\<close>

text \<open>
  Claim C9. In the state \<open>AMENITIES\<close> the selection is a set. For every amenity key
  (a key without underscore, as all twelve keys of \<open>amenities_options\<close> are) and
  every selection, pressing the key's toggle button flips the membership of exactly that
  key, leaves the membership of every other key as it was and keeps the conversation in
  \<open>AMENITIES\<close>; pressing it a second time gives back the bot as it was before the
  first press.
\<close>

theorem amenity_toggle_twice_restores:
  assumes "CHR ''_'' \<notin> set key"
    and "conversation b = Some AMENITIES"
    and "ud_selected_amenities (session b) = Some (AmenitySet s)"
  shows "(\<forall>(k, l) \<in> set amenities_options. CHR ''_'' \<notin> set k) \<and>
         (let q = CallbackQuery (''amenity_'' @ key @ ''_toggle'');
              b1 = fst (process_update R http now uid q b);
              b2 = fst (process_update R http now uid q b1)
          in (\<exists>s1. ud_selected_amenities (session b1) = Some (AmenitySet s1) \<and>
                    (key \<in> s1 \<longleftrightarrow> key \<notin> s) \<and>
                    (\<forall>k. k \<noteq> key \<longrightarrow> (k \<in> s1 \<longleftrightarrow> k \<in> s))) \<and>
             conversation b1 = Some AMENITIES \<and>
             b2 = b)"
proof -
  define tok where "tok = ''amenity_'' @ key @ ''_toggle''"
  define toggle where "toggle = (\<lambda>t. if key \<in> t then t - {key} else insert key t)"
  have keys: "\<forall>(k, l) \<in> set amenities_options. CHR ''_'' \<notin> set k"
    by (simp add: amenities_options_def)
  have nf: "\<not> starts_with ''feedback_'' tok"
    unfolding tok_def by (rule not_feedback_amenity)
  have cb: "amenity_callback R tok ud =
     (ud\<lparr>ud_selected_amenities := Some (AmenitySet (toggle t))\<rparr>,
      Return AMENITIES,
      [EditReplyMarkup (Some (amenities_keyboard (\<lambda>k. k \<in> toggle t))), Answer])"
    if "ud_selected_amenities ud = Some (AmenitySet t)" for ud t
    unfolding tok_def toggle_def by (rule amenity_callback_toggle[OF assms(1) that])
  have step: "fst (process_update R http now uid (CallbackQuery tok) c) =
      c\<lparr>conversation := Some AMENITIES,
        session := (session c)\<lparr>ud_selected_amenities := Some (AmenitySet (toggle t))\<rparr>\<rparr>"
    if "conversation c = Some AMENITIES" "ud_selected_amenities (session c) = Some (AmenitySet t)"
    for c t
    using that(1)
    by (simp add: process_update_def conversation_handler_def nf cb[OF that(2)] next_state_def)
  define b1 where "b1 = fst (process_update R http now uid (CallbackQuery tok) b)"
  have b1: "b1 = b\<lparr>conversation := Some AMENITIES,
        session := (session b)\<lparr>ud_selected_amenities := Some (AmenitySet (toggle s))\<rparr>\<rparr>"
    unfolding b1_def by (rule step[OF assms(2,3)])
  have conv1: "conversation b1 = Some AMENITIES"
    and sel1: "ud_selected_amenities (session b1) = Some (AmenitySet (toggle s))"
    by (simp_all add: b1)
  have twice: "toggle (toggle s) = s"
    by (auto simp: toggle_def)
  have "fst (process_update R http now uid (CallbackQuery tok) b1) =
      b1\<lparr>conversation := Some AMENITIES,
        session := (session b1)\<lparr>ud_selected_amenities := Some (AmenitySet (toggle (toggle s)))\<rparr>\<rparr>"
    by (rule step[OF conv1 sel1])
  also have "\<dots> = b"
    by (simp add: b1 twice session_selection_same[OF assms(3)] bot_conversation_same[OF assms(2)])
  finally have step2: "fst (process_update R http now uid (CallbackQuery tok) b1) = b" .
  have flip: "(key \<in> toggle s \<longleftrightarrow> key \<notin> s) \<and> (\<forall>k. k \<noteq> key \<longrightarrow> (k \<in> toggle s \<longleftrightarrow> k \<in> s))"
    by (auto simp: toggle_def)
  show ?thesis
    unfolding Let_def tok_def[symmetric] b1_def[symmetric] step2
    using keys flip sel1 conv1 by blast
qed

text \<open>The theorem at the key \<open>pool\<close>, with \<open>wifi\<close> selected.\<close>

theorem amenity_toggle_twice_restores_witness:
  "CHR ''_'' \<notin> set ''pool'' \<and> conversation amenities_bot = Some AMENITIES \<and>
   ud_selected_amenities (session amenities_bot) = Some (AmenitySet {''wifi''}) \<and>
   fst (process_update example_runtime example_http example_now 7
          (CallbackQuery ''amenity_pool_toggle'')
          (fst (process_update example_runtime example_http example_now 7
                  (CallbackQuery ''amenity_pool_toggle'') amenities_bot))) = amenities_bot"
proof -
  have h1: "CHR ''_'' \<notin> set ''pool''" by simp
  have h2: "conversation amenities_bot = Some AMENITIES" by (simp add: amenities_bot_def)
  have h3: "ud_selected_amenities (session amenities_bot) = Some (AmenitySet {''wifi''})"
    by (simp add: amenities_bot_def)
  show ?thesis
    using amenity_toggle_twice_restores[OF h1 h2 h3, of example_runtime example_http example_now 7]
      h1 h2 h3
    by (simp add: Let_def)
qed


section \<open>The cheapest five listings\<close>








section \<open>Feedback on a listing that the session does not hold\<close>

lemma split_feedback_token:
  assumes "CHR ''_'' \<notin> set listing_id"
  shows "py_split (CHR ''_'') (''feedback_'' @ listing_id @ ''_'' @ act) =
         ''feedback'' # listing_id # py_split (CHR ''_'') act"
proof -
  have "py_split (CHR ''_'') (''feedback'' @ CHR ''_'' # (listing_id @ CHR ''_'' # act)) =
        ''feedback'' # py_split (CHR ''_'') (listing_id @ CHR ''_'' # act)"
    by (rule py_split_append) simp
  also have "py_split (CHR ''_'') (listing_id @ CHR ''_'' # act) =
             listing_id # py_split (CHR ''_'') act"
    using assms by (rule py_split_append)
  finally show ?thesis by simp
qed

lemma feedback_token_prefix: "starts_with ''feedback_'' (''feedback_'' @ rest)"
  by (simp add: starts_with_def)

lemma length_py_split_pos: "0 < length (py_split c s)"
  using py_split_not_Nil by blast

text \<open>
  Claim C7. A feedback button names a listing id and \<open>like\<close> or \<open>dislike\<close>. If the
  session holds no listing under that id, the bot answers the button, removes the
  keyboard and sends the message that the listing's information was not found; the
  database (no feedback row, no user), the recommendation model, the session and the
  conversation are exactly as before. The same holds, with one of the two error
  messages, for every feedback button whose data has fewer than three parts or whose
  listing is not in the session.
\<close>

theorem feedback_on_unknown_listing:
  assumes "CHR ''_'' \<notin> set listing_id"
    and "ud_listings (session b) listing_id = None"
  shows "process_update R http now uid
           (CallbackQuery (''feedback_'' @ listing_id @ ''_'' @ act)) b =
         (b, [Answer, EditReplyMarkup None, ReplyText not_found_text None]) \<and>
         (\<forall>q. starts_with ''feedback_'' q \<longrightarrow>
              (length (py_split (CHR ''_'') q) < 3 \<or>
               ud_listings (session b) (py_split (CHR ''_'') q ! 1) = None) \<longrightarrow>
              fst (process_update R http now uid (CallbackQuery q) b) = b \<and>
              last (snd (process_update R http now uid (CallbackQuery q) b)) \<in>
                {ReplyText not_found_text None, ReplyText feedback_error_text None})"
proof -
  define tok where "tok = ''feedback_'' @ listing_id @ ''_'' @ act"
  have pre: "starts_with ''feedback_'' tok"
    unfolding tok_def by (rule feedback_token_prefix)
  have sp: "py_split (CHR ''_'') tok = ''feedback'' # listing_id # py_split (CHR ''_'') act"
    unfolding tok_def by (rule split_feedback_token[OF assms(1)])
  have same: "b\<lparr>session := session b, db := db b, model := model b\<rparr> = b"
    by (cases b) simp
  have first: "process_update R http now uid (CallbackQuery tok) b =
         (b, [Answer, EditReplyMarkup None, ReplyText not_found_text None])"
    using assms(2) length_py_split_pos[of "CHR ''_''" act]
    by (simp add: process_update_def pre handle_listing_feedback_def sp same)
  have second: "fst (process_update R http now uid (CallbackQuery q) b) = b \<and>
              last (snd (process_update R http now uid (CallbackQuery q) b)) \<in>
                {ReplyText not_found_text None, ReplyText feedback_error_text None}"
    if "starts_with ''feedback_'' q"
      "length (py_split (CHR ''_'') q) < 3 \<or>
       ud_listings (session b) (py_split (CHR ''_'') q ! 1) = None" for q
    using that
    by (auto simp: process_update_def handle_listing_feedback_def Let_def same)
  show ?thesis
    unfolding tok_def[symmetric] using first second by blast
qed

text \<open>The theorem at a listing id that the session of the example does not hold.\<close>

theorem feedback_on_unknown_listing_witness:
  "CHR ''_'' \<notin> set ''777'' \<and> ud_listings (session feedback_bot) ''777'' = None \<and>
   process_update example_runtime example_http example_now 7
     (CallbackQuery (''feedback_'' @ ''777'' @ ''_'' @ ''like'')) feedback_bot =
   (feedback_bot, [Answer, EditReplyMarkup None, ReplyText not_found_text None])"
proof -
  have h1: "CHR ''_'' \<notin> set ''777''" by simp
  have h2: "ud_listings (session feedback_bot) ''777'' = None"
    by (simp add: feedback_bot_def)
  show ?thesis
    using feedback_on_unknown_listing[OF h1 h2, of example_runtime example_http example_now 7 "''like''"]
      h1 h2
    by blast
qed


section \<open>The feedback row\<close>








section \<open>Results without a price\<close>







lemma price_range_no_listings:
  assumes "ud_location ud = Some loc"
    and "ud_checkin_date ud = Some checkin"
    and "ud_checkout_date ud = Some checkout"
    and "ud_guests ud = Some g"
    and "parse_price_text t = Inr (lo, hi)"
    and "\<And>am. search_listings R http loc (strftime checkin) (strftime checkout) g
            (Some lo) (Some hi) am = []"
  shows "price_range R http t ud =
         (ud, Return_END, [ReplyText searching_text None, EditText no_results_text None])"
  using assms by (simp add: price_range_def)

lemma complete_session_fields:
  "ud_location complete_session = Some ''Paris''"
  "ud_checkin_date complete_session = Some \<lparr>year = 2025, month = 7, day = 1\<rparr>"
  "ud_checkout_date complete_session = Some \<lparr>year = 2025, month = 7, day = 3\<rparr>"
  "ud_guests complete_session = Some 2"
  by (simp_all add: complete_session_def empty_session_def)

lemma parse_100_300: "parse_price_text ''100-300'' = Inr (100, 300)"
  by (simp add: parse_price_text_def py_int_def py_strip_def is_space_def digit_groups_def
      is_digit_def nat_of_digits_def digit_val_def)





section \<open>A failed search\<close>

text \<open>
  Claim C3, as stated, fails: when the listings request is answered with status 500 the
  conversation does not stay in \<open>PRICE_RANGE\<close>. It ends, and the message sent is the
  one for a search without results.
\<close>

theorem search_failure_keeps_state_counterexample:
  "conversation price_range_bot = Some PRICE_RANGE \<and>
   example_http (search_params ''Paris'' ''2025-07-01'' ''2025-07-03'' 2 (Some 100) (Some 300)) =
     Response 500 NotJson \<and>
   conversation (fst (process_update example_runtime example_http example_now 7
                        (TextMessage ''100-300'') price_range_bot)) = None \<and>
   snd (process_update example_runtime example_http example_now 7
          (TextMessage ''100-300'') price_range_bot) =
     [ReplyText searching_text None, EditText no_results_text None]"
  by (simp add: process_update_def conversation_handler_def price_range_bot_def
      price_range_def parse_100_300 complete_session_fields search_listings_def
      example_http_def next_state_def)

text \<open>
  Claim C3, amended. For every failure of the listings request (an exception raised by
  the request, a status other than 200, a body that is not JSON), with the criteria
  collected and a price text that parses, \<^verbatim>\<open>search_listings\<close> returns the empty list
  and \<^verbatim>\<open>price_range\<close> sends the message that no properties were found and ends the
  conversation, leaving the session as it was: the outcome is the one of a search that
  succeeded without results.
\<close>

theorem search_failure_ends_conversation:
  assumes "conversation b = Some PRICE_RANGE"
    and "ud_location (session b) = Some loc"
    and "ud_checkin_date (session b) = Some checkin"
    and "ud_checkout_date (session b) = Some checkout"
    and "ud_guests (session b) = Some g"
    and "parse_price_text t = Inr (lo, hi)"
    and "http (search_params loc (strftime checkin) (strftime checkout) g (Some lo) (Some hi)) =
           RequestException \<or>
         (\<exists>code body.
            http (search_params loc (strftime checkin) (strftime checkout) g (Some lo) (Some hi)) =
              Response code body \<and>
            (code \<noteq> 200 \<or> body = NotJson))"
  shows "process_update R http now uid (TextMessage t) b =
           (b\<lparr>conversation := None\<rparr>,
            [ReplyText searching_text None, EditText no_results_text None]) \<and>
         process_update R (\<lambda>params. Response 200 (Json (JObj [(''results'', JList [])])))
           now uid (TextMessage t) b =
         process_update R http now uid (TextMessage t) b"
proof -
  have e: "search_listings R http loc (strftime checkin) (strftime checkout) g
             (Some lo) (Some hi) am = []" for am
    using assms(7) by (auto simp: search_listings_def)
  have z: "search_listings R (\<lambda>params. Response 200 (Json (JObj [(''results'', JList [])])))
             loc (strftime checkin) (strftime checkout) g (Some lo) (Some hi) am = []" for am
    by (simp add: search_listings_def dict_get_def)
  have same: "b\<lparr>conversation := None, session := session b\<rparr> = b\<lparr>conversation := None\<rparr>"
    by (cases b) simp
  show ?thesis
    using assms(1)
    by (simp add: process_update_def conversation_handler_def next_state_def same
        price_range_no_listings[OF assms(2-6) e] price_range_no_listings[OF assms(2-6) z])
qed

text \<open>The theorem at a request answered with status 500.\<close>

theorem search_failure_ends_conversation_witness:
  "conversation price_range_bot = Some PRICE_RANGE \<and>
   parse_price_text ''100-300'' = Inr (100, 300) \<and>
   process_update example_runtime example_http example_now 7 (TextMessage ''100-300'')
     price_range_bot =
   (price_range_bot\<lparr>conversation := None\<rparr>,
    [ReplyText searching_text None, EditText no_results_text None])"
proof -
  have h1: "conversation price_range_bot = Some PRICE_RANGE"
    by (simp add: price_range_bot_def)
  have s: "session price_range_bot = complete_session"
    by (simp add: price_range_bot_def)
  have h7: "example_http (search_params ''Paris'' (strftime \<lparr>year = 2025, month = 7, day = 1\<rparr>)
              (strftime \<lparr>year = 2025, month = 7, day = 3\<rparr>) 2 (Some 100) (Some 300)) =
             RequestException \<or>
           (\<exists>code body.
              example_http (search_params ''Paris'' (strftime \<lparr>year = 2025, month = 7, day = 1\<rparr>)
                (strftime \<lparr>year = 2025, month = 7, day = 3\<rparr>) 2 (Some 100) (Some 300)) =
                Response code body \<and>
              (code \<noteq> 200 \<or> body = NotJson))"
    by (simp add: example_http_def)
  show ?thesis
    using search_failure_ends_conversation[where http = example_http and R = example_runtime
        and b = price_range_bot and now = example_now and uid = 7,
        OF h1 complete_session_fields[folded s] parse_100_300 h7]
      h1 parse_100_300
    by simp
qed


section \<open>The price range\<close>







section \<open>The check-out date\<close>

lemma handle_calendar_checkout:
  assumes "ud_checkin_date ud = Some checkin" and "strptime s = Inr selected"
  shows "handle_calendar now (''cal_'' @ s) ud =
    (if dt_le selected checkin then
       (ud, Return SELECT_CHECKOUT, [Answer, AnswerAlert ''Please select a date after check-in''])
     else
       (ud\<lparr>ud_checkout_date := Some selected,
           ud_dates := Some (strftime checkin @ '' to '' @ strftime selected)\<rparr>,
        Return GUESTS,
        [Answer,
         EditText (heavy_check_mark @ '' Dates selected!\<newline>Check-in: '' @
                   strftime checkin @ ''\<newline>Check-out: '' @ strftime selected) None,
         ReplyText ''How many guests will be staying?'' None]))"
proof -
  define tok where "tok = ''cal_'' @ s"
  have sp: "py_split (CHR ''_'') tok = [''cal'', s]"
    unfolding tok_def by (rule split_cal_token[OF strptime_no_underscore[OF assms(2)]])
  have ni: "tok \<noteq> ''ignore''"
    unfolding tok_def by (rule cal_token_prefix(3))
  show ?thesis
    unfolding tok_def[symmetric]
    using assms
    by (simp add: handle_calendar_def ni sp cal_argument_def)
qed

lemma strptime_example: "strptime ''2025-07-01'' = Inr \<lparr>year = 2025, month = 7, day = 1\<rparr>"
  by (simp add: strptime_def month_field_def day_field_def is_digit_def nat_of_digits_def
      digit_val_def ndays_of_def mdays_def is_space_def)

text \<open>
  Claim C1. In the state \<open>SELECT_CHECKOUT\<close>, with a check-in date in the session, a
  pressed day button whose date is at or before the check-in date is answered with the
  alert to select a date after check-in and leaves the whole bot, the conversation state
  included, as it was. A date strictly after the check-in date is stored as the check-out
  date and the conversation moves to \<open>GUESTS\<close>. The date of a day button is what
  \<^verbatim>\<open>strptime\<close> reads from the button's data.
\<close>

theorem checkout_after_checkin:
  assumes "conversation b = Some SELECT_CHECKOUT"
    and "ud_checkin_date (session b) = Some checkin"
    and "strptime s = Inr selected"
  shows "(dt_le selected checkin \<longrightarrow>
            process_update R http now uid (CallbackQuery (''cal_'' @ s)) b =
              (b, [Answer, AnswerAlert ''Please select a date after check-in''])) \<and>
         (dt_less checkin selected \<longrightarrow>
            process_update R http now uid (CallbackQuery (''cal_'' @ s)) b =
              (b\<lparr>conversation := Some GUESTS,
                 session := (session b)
                   \<lparr>ud_checkout_date := Some selected,
                    ud_dates := Some (strftime checkin @ '' to '' @ strftime selected)\<rparr>\<rparr>,
               [Answer,
                EditText (heavy_check_mark @ '' Dates selected!\<newline>Check-in: '' @
                          strftime checkin @ ''\<newline>Check-out: '' @ strftime selected) None,
                ReplyText ''How many guests will be staying?'' None])) \<and>
         (dt_less checkin selected \<longleftrightarrow> \<not> dt_le selected checkin)"
proof -
  define tok where "tok = ''cal_'' @ s"
  have pre: "starts_with ''cal'' tok" "\<not> starts_with ''feedback_'' tok"
    unfolding tok_def by (rule cal_token_prefix)+
  have same: "b\<lparr>conversation := Some SELECT_CHECKOUT, session := session b\<rparr> = b"
    using assms(1) by (cases b) simp
  have hc: "handle_calendar now tok (session b) = (if dt_le selected checkin then
       (session b, Return SELECT_CHECKOUT, [Answer, AnswerAlert ''Please select a date after check-in''])
     else
       ((session b)\<lparr>ud_checkout_date := Some selected,
           ud_dates := Some (strftime checkin @ '' to '' @ strftime selected)\<rparr>,
        Return GUESTS,
        [Answer,
         EditText (heavy_check_mark @ '' Dates selected!\<newline>Check-in: '' @
                   strftime checkin @ ''\<newline>Check-out: '' @ strftime selected) None,
         ReplyText ''How many guests will be staying?'' None]))"
    unfolding tok_def by (rule handle_calendar_checkout[OF assms(2,3)])
  have rej: "process_update R http now uid (CallbackQuery tok) b =
              (b, [Answer, AnswerAlert ''Please select a date after check-in''])"
    if "dt_le selected checkin"
    using assms(1) that
    by (simp add: process_update_def conversation_handler_def pre hc next_state_def same)
  have acc: "process_update R http now uid (CallbackQuery tok) b =
              (b\<lparr>conversation := Some GUESTS,
                 session := (session b)
                   \<lparr>ud_checkout_date := Some selected,
                    ud_dates := Some (strftime checkin @ '' to '' @ strftime selected)\<rparr>\<rparr>,
               [Answer,
                EditText (heavy_check_mark @ '' Dates selected!\<newline>Check-in: '' @
                          strftime checkin @ ''\<newline>Check-out: '' @ strftime selected) None,
                ReplyText ''How many guests will be staying?'' None])"
    if "dt_less checkin selected"
    using assms(1) that
    by (simp add: process_update_def conversation_handler_def pre hc next_state_def
        dt_le_iff_not_less)
  show ?thesis
    unfolding tok_def[symmetric]
    using rej acc by (simp add: dt_le_iff_not_less)
qed

text \<open>The theorem at the check-in date itself.\<close>

theorem checkout_after_checkin_witness:
  "conversation checkout_bot = Some SELECT_CHECKOUT \<and>
   ud_checkin_date (session checkout_bot) = Some \<lparr>year = 2025, month = 7, day = 1\<rparr> \<and>
   strptime ''2025-07-01'' = Inr \<lparr>year = 2025, month = 7, day = 1\<rparr> \<and>
   dt_le \<lparr>year = 2025, month = 7, day = 1\<rparr> \<lparr>year = 2025, month = 7, day = 1\<rparr> \<and>
   process_update example_runtime example_http example_now 7
     (CallbackQuery (''cal_'' @ ''2025-07-01'')) checkout_bot =
   (checkout_bot, [Answer, AnswerAlert ''Please select a date after check-in''])"
proof -
  have h1: "conversation checkout_bot = Some SELECT_CHECKOUT"
    and h2: "ud_checkin_date (session checkout_bot) = Some \<lparr>year = 2025, month = 7, day = 1\<rparr>"
    by (simp_all add: checkout_bot_def empty_session_def)
  have le: "dt_le \<lparr>year = 2025, month = 7, day = 1\<rparr> \<lparr>year = 2025, month = 7, day = 1\<rparr>"
    by (simp add: dt_le_def)
  show ?thesis
    using checkout_after_checkin[OF h1 h2 strptime_example,
        of example_runtime example_http example_now 7] h1 h2 strptime_example le
    by blast
qed


section \<open>The days of the calendar\<close>

lemma concat_group7: "concat (group7 xs) = xs"
proof (induction xs rule: group7.induct)
  case 1
  then show ?case by simp
next
  case (2 x xs)
  have "concat (group7 (x # xs)) = take 7 (x # xs) @ concat (group7 (drop 7 (x # xs)))"
    by (simp del: take_Cons_numeral drop_Cons_numeral)
  also have "\<dots> = take 7 (x # xs) @ drop 7 (x # xs)"
    using 2 by simp
  finally show ?case
    by (simp only: append_take_drop_id)
qed

lemma days_of_month:
  "filter (\<lambda>d. d \<noteq> 0) (itermonthdays yr mo) = [1..ndays_of yr mo]"
proof -
  have "filter (\<lambda>d. d \<noteq> 0) [1..n] = [1..n]" for n :: int
    by (simp add: filter_id_conv)
  then show ?thesis
    by (simp add: itermonthdays_def Let_def)
qed

lemma create_calendar_valid:
  assumes "1 \<le> mo" "mo \<le> 12"
  shows "create_calendar today yr mo sel =
         Inr ([InlineKeyboardButton (month_names ! nat mo @ '' '' @ str_int yr) ''ignore''] #
              map (\<lambda>d. InlineKeyboardButton d ''ignore'') week_days #
              map (map (day_button today yr mo sel)) (group7 (itermonthdays yr mo)) @
              [nav_row today yr mo])"
  using assms by (simp add: create_calendar_def month_name_def monthcalendar_def)

lemma day_button_blank: "callback_data (day_button today yr mo sel 0) = ''ignore''"
  by (simp add: day_button_def InlineKeyboardButton_def)

lemma day_button_day:
  assumes "dy \<noteq> 0"
  shows "callback_data (day_button today yr mo sel dy) =
         (if dt_less \<lparr>year = yr, month = mo, day = dy\<rparr> today then ''ignore''
          else ''cal_'' @ date_str yr mo dy)"
  using assms by (auto simp: day_button_def InlineKeyboardButton_def dt_less_def Let_def)

lemma list_all2_map_same: "list_all2 P xs (map f xs) \<longleftrightarrow> (\<forall>x \<in> set xs. P x (f x))"
  by (simp add: list_all2_map2 list_all2_same)

lemma date_str_no_underscore:
  assumes "0 \<le> mo" "0 \<le> dy"
  shows "CHR ''_'' \<notin> set (date_str yr mo dy)"
  using str_int_no_underscore[of yr] fmt_02d_no_underscore[OF assms(1)]
    fmt_02d_no_underscore[OF assms(2)]
  by (simp add: date_str_def)

lemma cal_argument_date_str:
  assumes "1000 \<le> yr" "yr \<le> 9999" "1 \<le> mo" "mo \<le> 12" "1 \<le> dy" "dy \<le> ndays_of yr mo"
  shows "cal_argument (py_split (CHR ''_'') (''cal_'' @ date_str yr mo dy)) =
         Inr \<lparr>year = yr, month = mo, day = dy\<rparr>"
proof -
  have u: "CHR ''_'' \<notin> set (date_str yr mo dy)"
    using assms by (intro date_str_no_underscore) simp_all
  have d31: "dy \<le> 31"
    using ndays_of_bounds[OF assms(3,4), of yr] assms(6) by simp
  have "strptime (date_str yr mo dy) = Inr \<lparr>year = yr, month = mo, day = dy\<rparr>"
    using assms d31 by (subst strptime_date_str) simp_all
  then show ?thesis
    unfolding split_cal_token[OF u] cal_argument_def by simp
qed

lemma calendar_grid_valid_month:
  assumes "1 \<le> mo" and "mo \<le> 12"
  shows "\<exists>header weekdays weeks nav cal.
           monthcalendar yr mo = Inr cal \<and>
           create_calendar today yr mo sel = Inr (header # weekdays # weeks @ [nav]) \<and>
           filter (\<lambda>d. d \<noteq> 0) (concat cal) = [1..ndays_of yr mo] \<and>
           list_all2 (list_all2 (\<lambda>dy cell.
               if dy = 0 then callback_data cell = ''ignore''
               else (callback_data cell = ''ignore'' \<longleftrightarrow>
                       dt_less \<lparr>year = yr, month = mo, day = dy\<rparr> today) \<and>
                    (callback_data cell \<noteq> ''ignore'' \<longrightarrow>
                       callback_data cell = ''cal_'' @ date_str yr mo dy \<and>
                       \<not> dt_less \<lparr>year = yr, month = mo, day = dy\<rparr> today))) cal weeks \<and>
           (1000 \<le> yr \<and> yr \<le> 9999 \<longrightarrow>
              (\<forall>dy. 1 \<le> dy \<and> dy \<le> ndays_of yr mo \<longrightarrow>
                 cal_argument (py_split (CHR ''_'') (''cal_'' @ date_str yr mo dy)) =
                   Inr \<lparr>year = yr, month = mo, day = dy\<rparr>))"
proof -
  define cal where "cal = group7 (itermonthdays yr mo)"
  define weeks where "weeks = map (map (day_button today yr mo sel)) cal"
  have mc: "monthcalendar yr mo = Inr cal"
    using assms by (simp add: monthcalendar_def cal_def)
  have cc: "create_calendar today yr mo sel =
        Inr ([InlineKeyboardButton (month_names ! nat mo @ '' '' @ str_int yr) ''ignore''] #
             map (\<lambda>d. InlineKeyboardButton d ''ignore'') week_days #
             weeks @ [nav_row today yr mo])"
    unfolding weeks_def cal_def by (rule create_calendar_valid[OF assms])
  have days: "filter (\<lambda>d. d \<noteq> 0) (concat cal) = [1..ndays_of yr mo]"
    unfolding cal_def concat_group7 by (rule days_of_month)
  have cell: "if dy = 0 then callback_data (day_button today yr mo sel dy) = ''ignore''
      else (callback_data (day_button today yr mo sel dy) = ''ignore'' \<longleftrightarrow>
              dt_less \<lparr>year = yr, month = mo, day = dy\<rparr> today) \<and>
           (callback_data (day_button today yr mo sel dy) \<noteq> ''ignore'' \<longrightarrow>
              callback_data (day_button today yr mo sel dy) = ''cal_'' @ date_str yr mo dy \<and>
              \<not> dt_less \<lparr>year = yr, month = mo, day = dy\<rparr> today)" for dy
    by (cases "dy = 0") (simp_all add: day_button_blank day_button_day)
  have cells: "list_all2 (list_all2 (\<lambda>dy cell.
               if dy = 0 then callback_data cell = ''ignore''
               else (callback_data cell = ''ignore'' \<longleftrightarrow>
                       dt_less \<lparr>year = yr, month = mo, day = dy\<rparr> today) \<and>
                    (callback_data cell \<noteq> ''ignore'' \<longrightarrow>
                       callback_data cell = ''cal_'' @ date_str yr mo dy \<and>
                       \<not> dt_less \<lparr>year = yr, month = mo, day = dy\<rparr> today))) cal weeks"
    unfolding weeks_def list_all2_map_same using cell by blast
  have decode: "cal_argument (py_split (CHR ''_'') (''cal_'' @ date_str yr mo dy)) =
                   Inr \<lparr>year = yr, month = mo, day = dy\<rparr>"
    if "1000 \<le> yr \<and> yr \<le> 9999" "1 \<le> dy \<and> dy \<le> ndays_of yr mo" for dy
    using that assms by (intro cal_argument_date_str) simp_all
  show ?thesis
    using mc cc days cells decode by blast
qed

lemma create_calendar_invalid_month:
  assumes "\<not> (1 \<le> mo \<and> mo \<le> 12)"
  shows "\<exists>e. create_calendar today yr mo sel = Inl e"
  using assms by (auto simp: create_calendar_def month_name_def monthcalendar_def)

lemma june_2025_third_week:
  "group7 (itermonthdays 2025 6) ! 2 = [9, 10, 11, 12, 13, 14, 15] \<and>
   length (group7 (itermonthdays 2025 6)) = 6"
  by code_simp

lemma third_week_buttons:
  "map callback_data (map (day_button example_now 2025 6 None) [9, 10, 11, 12, 13, 14, 15]) =
     [''ignore'', ''ignore'', ''ignore'', ''ignore'', ''ignore'', ''ignore'', ''cal_2025-06-15'']"
  by (simp add: day_button_def example_now_def InlineKeyboardButton_def date_str_def str_int_def
      fmt_02d_def str_nat.simps digit_char_def)

text \<open>
  Claim C4. For every year, month and today: if the month is one of the twelve,
  \<^verbatim>\<open>create_calendar\<close> returns a header row, a row of week days, the rows of the weeks
  and a navigation row. The cells of the week rows stand for the day numbers of
  \<^verbatim>\<open>calendar.monthcalendar\<close> position by position, and every day of the month occurs
  once, in order. A cell of a day carries the data \<open>ignore\<close> if and only if its date is
  strictly before today's date; every other cell of a day carries \<open>cal_\<close> followed by
  its year, month and day, and its date does not precede today. For a year of four digits
  the handler reads exactly that date back from the data. For any other month number
  \<^verbatim>\<open>create_calendar\<close> raises and there is no grid.
\<close>

theorem calendar_disables_past_days:
  "(1 \<le> mo \<and> mo \<le> 12 \<longrightarrow>
      (\<exists>header weekdays weeks nav cal.
                 monthcalendar yr mo = Inr cal \<and>
                 create_calendar today yr mo sel = Inr (header # weekdays # weeks @ [nav]) \<and>
                 filter (\<lambda>d. d \<noteq> 0) (concat cal) = [1..ndays_of yr mo] \<and>
                 list_all2 (list_all2 (\<lambda>dy cell.
                     if dy = 0 then callback_data cell = ''ignore''
                     else (callback_data cell = ''ignore'' \<longleftrightarrow>
                             dt_less \<lparr>year = yr, month = mo, day = dy\<rparr> today) \<and>
                          (callback_data cell \<noteq> ''ignore'' \<longrightarrow>
                             callback_data cell = ''cal_'' @ date_str yr mo dy \<and>
                             \<not> dt_less \<lparr>year = yr, month = mo, day = dy\<rparr> today))) cal weeks \<and>
                 (1000 \<le> yr \<and> yr \<le> 9999 \<longrightarrow>
                    (\<forall>dy. 1 \<le> dy \<and> dy \<le> ndays_of yr mo \<longrightarrow>
                       cal_argument (py_split (CHR ''_'') (''cal_'' @ date_str yr mo dy)) =
                         Inr \<lparr>year = yr, month = mo, day = dy\<rparr>)))) \<and>
   (\<not> (1 \<le> mo \<and> mo \<le> 12) \<longrightarrow> (\<exists>e. create_calendar today yr mo sel = Inl e))"
  using calendar_grid_valid_month[of mo yr today sel]
    create_calendar_invalid_month[of mo today yr sel]
  by blast

text \<open>June 2025 on the fifteenth: the third week is disabled up to the fourteenth.\<close>

theorem calendar_disables_past_days_witness:
  "(1::int) \<le> 6 \<and> (6::int) \<le> 12 \<and>
   (\<exists>header weekdays weeks nav.
      create_calendar example_now 2025 6 None = Inr (header # weekdays # weeks @ [nav]) \<and>
      length weeks = 6 \<and>
      map callback_data (weeks ! 2) =
        [''ignore'', ''ignore'', ''ignore'', ''ignore'', ''ignore'', ''ignore'',
         ''cal_2025-06-15''])"
proof -
  have h1: "(1::int) \<le> 6" and h2: "(6::int) \<le> 12"
    by simp_all
  obtain header weekdays weeks nav cal where
    mc: "monthcalendar 2025 6 = Inr cal"
    and cc: "create_calendar example_now 2025 6 None = Inr (header # weekdays # weeks @ [nav])"
    and cells: "list_all2 (list_all2 (\<lambda>dy cell.
               if dy = 0 then callback_data cell = ''ignore''
               else (callback_data cell = ''ignore'' \<longleftrightarrow>
                       dt_less \<lparr>year = 2025, month = 6, day = dy\<rparr> example_now) \<and>
                    (callback_data cell \<noteq> ''ignore'' \<longrightarrow>
                       callback_data cell = ''cal_'' @ date_str 2025 6 dy \<and>
                       \<not> dt_less \<lparr>year = 2025, month = 6, day = dy\<rparr> example_now))) cal weeks"
    using calendar_disables_past_days[of 6 2025 example_now None] h1 h2 by blast
  have cal: "cal = group7 (itermonthdays 2025 6)"
    using mc by (simp add: monthcalendar_def)
  have w: "weeks = map (map (day_button example_now 2025 6 None)) cal"
    using cc unfolding cal create_calendar_valid[OF h1 h2] by simp
  have "length weeks = 6"
    and "map callback_data (weeks ! 2) =
        [''ignore'', ''ignore'', ''ignore'', ''ignore'', ''ignore'', ''ignore'',
         ''cal_2025-06-15'']"
    using june_2025_third_week third_week_buttons by (simp_all add: w cal)
  then show ?thesis
    using cc by simp
qed


section \<open>Navigation between months\<close>

subsection \<open>Navigation events\<close>

lemma split_nav_token:
  "py_split (CHR ''_'') (''nav_'' @ str_int a @ ''_'' @ str_int b) = [''nav'', str_int a, str_int b]"
proof -
  have "py_split (CHR ''_'') (''nav'' @ CHR ''_'' # (str_int a @ CHR ''_'' # str_int b)) =
        ''nav'' # py_split (CHR ''_'') (str_int a @ CHR ''_'' # str_int b)"
    by (rule py_split_append) simp
  also have "py_split (CHR ''_'') (str_int a @ CHR ''_'' # str_int b) =
        str_int a # py_split (CHR ''_'') (str_int b)"
    using str_int_no_underscore by (rule py_split_append)
  also have "py_split (CHR ''_'') (str_int b) = [str_int b]"
    using str_int_no_underscore by (rule py_split_no_sep)
  finally show ?thesis by simp
qed

lemma nav_token_prefix:
  "starts_with ''nav'' (''nav_'' @ s)" "\<not> starts_with ''feedback_'' (''nav_'' @ s)"
  "''nav_'' @ s \<noteq> ''ignore''"
  by (simp_all add: starts_with_def)

lemma handle_calendar_nav:
  "handle_calendar now (''nav_'' @ str_int a @ ''_'' @ str_int b) ud =
     (case create_calendar now a b None of
        Inl e \<Rightarrow> calendar_error ud
      | Inr kb \<Rightarrow> (ud, Return (calendar_state_or_default ud),
                   [Answer, EditReplyMarkup (Some kb)]))"
proof -
  define tok where "tok = ''nav_'' @ str_int a @ ''_'' @ str_int b"
  have sp: "py_split (CHR ''_'') tok = [''nav'', str_int a, str_int b]"
    unfolding tok_def by (rule split_nav_token)
  have ni: "tok \<noteq> ''ignore''"
    unfolding tok_def by (rule nav_token_prefix(3))
  show ?thesis
    unfolding tok_def[symmetric]
    by (simp add: handle_calendar_def ni sp nav_arguments_def py_int_str_int)
qed

lemma append_sep_inject:
  fixes c :: char
  assumes "c \<notin> set a" "c \<notin> set a'" "a @ c # b = a' @ c # b'"
  shows "a = a' \<and> b = b'"
proof -
  have "a # py_split c b = a' # py_split c b'"
    using py_split_append[OF assms(1), of b] py_split_append[OF assms(2), of b'] assms(3)
    by simp
  then have "a = a'" by simp
  then show ?thesis using assms(3) by simp
qed

lemma distinct_month_names: "distinct month_names"
  by (simp add: month_names_def)

lemma length_month_names: "length month_names = 13"
  by (simp add: month_names_def)

lemma month_names_no_space: "n < 13 \<Longrightarrow> CHR '' '' \<notin> set (month_names ! n)"
proof -
  have "\<forall>s \<in> set month_names. CHR '' '' \<notin> set s"
    by (simp add: month_names_def)
  moreover assume "n < 13"
  then have "month_names ! n \<in> set month_names"
    by (intro nth_mem) (simp add: length_month_names)
  ultimately show ?thesis by blast
qed

lemma create_calendar_Inr_month:
  "create_calendar now yr mo sel = Inr kb \<Longrightarrow> 1 \<le> mo \<and> mo \<le> 12"
  by (auto simp: create_calendar_def month_name_def monthcalendar_def split: if_splits sum.splits)

lemma create_calendar_inject:
  assumes "create_calendar now yr mo sel = Inr kb" "create_calendar now yr' mo' sel' = Inr kb"
  shows "yr = yr' \<and> mo = mo'"
proof -
  have m: "1 \<le> mo" "mo \<le> 12" and m': "1 \<le> mo'" "mo' \<le> 12"
    using assms create_calendar_Inr_month by blast+
  have "create_calendar now yr mo sel = create_calendar now yr' mo' sel'"
    using assms by simp
  then have e: "month_names ! nat mo @ CHR '' '' # str_int yr =
                month_names ! nat mo' @ CHR '' '' # str_int yr'"
    unfolding create_calendar_valid[OF m] create_calendar_valid[OF m']
    by (simp add: InlineKeyboardButton_def)
  have n: "nat mo < 13" "nat mo' < 13"
    using m m' by linarith+
  have "month_names ! nat mo = month_names ! nat mo' \<and> str_int yr = str_int yr'"
    using append_sep_inject[OF month_names_no_space[OF n(1)] month_names_no_space[OF n(2)] e] .
  then have "nat mo = nat mo'" "yr = yr'"
    using n distinct_month_names str_int_inject
    by (auto simp: nth_eq_iff_index_eq length_month_names)
  then show ?thesis
    using m m' by simp
qed

subsection \<open>The buttons of a calendar\<close>

lemma keyboards_sent_simps:
  "keyboards_sent [] = []"
  "keyboards_sent (a # sent) =
     (case markup_of a of None \<Rightarrow> keyboards_sent sent | Some kb \<Rightarrow> kb # keyboards_sent sent)"
  by (simp_all add: keyboards_sent_def split: option.splits)

lemma keyboards_sent_append:
  "keyboards_sent (xs @ ys) = keyboards_sent xs @ keyboards_sent ys"
  by (simp add: keyboards_sent_def List.map_filter_def)

lemma keyboards_sent_calendar_error: "keyboards_sent (snd (snd (calendar_error ud))) = []"
  by (simp add: calendar_error_def keyboards_sent_simps)

lemma itermonthdays_set:
  "dy \<in> set (itermonthdays yr mo) \<Longrightarrow> dy = 0 \<or> (1 \<le> dy \<and> dy \<le> ndays_of yr mo)"
  by (auto simp: itermonthdays_def Let_def)

lemma nav_row_tokens:
  assumes "1 \<le> mo" "mo \<le> 12" "\<not> month_before yr mo now"
    and "btn \<in> set (nav_row now yr mo)"
  shows "callback_data btn = ''ignore'' \<or>
         (\<exists>a b. callback_data btn = ''nav_'' @ str_int a @ ''_'' @ str_int b \<and>
                1 \<le> b \<and> b \<le> 12 \<and> \<not> month_before a b now)"
proof -
  let ?pm = "if mo > 1 then mo - 1 else 12"
  let ?py = "if mo > 1 then yr else yr - 1"
  let ?nm = "if mo < 12 then mo + 1 else 1"
  let ?ny = "if mo < 12 then yr else yr + 1"
  have nxt: "1 \<le> ?nm \<and> ?nm \<le> 12 \<and> \<not> month_before ?ny ?nm now"
    using assms(1-3) by (auto simp: month_before_def)
  have prv: "1 \<le> ?pm \<and> ?pm \<le> 12"
    using assms(1,2) by auto
  have prv_ok: "\<not> month_before ?py ?pm now"
    if "?py > year now \<or> (?py = year now \<and> ?pm \<ge> month now)"
    using that by (auto simp: month_before_def)
  from assms(4) consider
      (prevb) "?py > year now \<or> (?py = year now \<and> ?pm \<ge> month now)"
        "callback_data btn = ''nav_'' @ str_int ?py @ ''_'' @ str_int ?pm"
    | (blank) "callback_data btn = ''ignore''"
    | (nextb) "callback_data btn = ''nav_'' @ str_int ?ny @ ''_'' @ str_int ?nm"
    by (auto simp: nav_row_def Let_def InlineKeyboardButton_def split: if_splits)
  then show ?thesis
  proof cases
    case prevb
    then show ?thesis using prv prv_ok by blast
  next
    case blank
    then show ?thesis by simp
  next
    case nextb
    then show ?thesis using nxt by blast
  qed
qed

lemma calendar_buttons:
  assumes "create_calendar now yr mo sel = Inr kb" and "btn \<in> set (concat kb)"
  shows "callback_data btn = ''ignore'' \<or>
         (\<exists>dy. 1 \<le> dy \<and> dy \<le> ndays_of yr mo \<and>
               callback_data btn = ''cal_'' @ date_str yr mo dy) \<or>
         btn \<in> set (nav_row now yr mo)"
proof -
  have m: "1 \<le> mo" "mo \<le> 12"
    using assms(1) create_calendar_Inr_month by blast+
  have kb: "kb = [InlineKeyboardButton (month_names ! nat mo @ '' '' @ str_int yr) ''ignore''] #
              map (\<lambda>d. InlineKeyboardButton d ''ignore'') week_days #
              map (map (day_button now yr mo sel)) (group7 (itermonthdays yr mo)) @
              [nav_row now yr mo]"
    using assms(1) unfolding create_calendar_valid[OF m] by simp
  have "concat (map (map (day_button now yr mo sel)) (group7 (itermonthdays yr mo))) =
        map (day_button now yr mo sel) (itermonthdays yr mo)"
    by (simp add: map_concat[symmetric] concat_group7)
  then have "set (concat kb) =
        {InlineKeyboardButton (month_names ! nat mo @ '' '' @ str_int yr) ''ignore''} \<union>
        (\<lambda>d. InlineKeyboardButton d ''ignore'') ` set week_days \<union>
        day_button now yr mo sel ` set (itermonthdays yr mo) \<union>
        set (nav_row now yr mo)"
    unfolding kb by auto
  with assms(2) consider
      "btn = InlineKeyboardButton (month_names ! nat mo @ '' '' @ str_int yr) ''ignore''"
    | "btn \<in> (\<lambda>d. InlineKeyboardButton d ''ignore'') ` set week_days"
    | dy where "dy \<in> set (itermonthdays yr mo)" "btn = day_button now yr mo sel dy"
    | "btn \<in> set (nav_row now yr mo)"
    by blast
  then show ?thesis
  proof cases
    case 1
    then show ?thesis by (simp add: InlineKeyboardButton_def)
  next
    case 2
    then show ?thesis by (auto simp: InlineKeyboardButton_def)
  next
    case 3
    show ?thesis
    proof (cases "dy = 0")
      case True
      then show ?thesis using 3 by (simp add: day_button_blank)
    next
      case False
      then have "1 \<le> dy \<and> dy \<le> ndays_of yr mo"
        using itermonthdays_set[OF 3(1)] by simp
      then show ?thesis
        using 3(2) day_button_day[OF False, of now yr mo sel] by auto
    qed
  next
    case 4
    then show ?thesis by simp
  qed
qed

lemma calendar_has_nav:
  assumes "create_calendar now yr mo sel = Inr kb"
  shows "\<exists>btn \<in> set (concat kb). starts_with ''nav'' (callback_data btn)"
proof -
  have m: "1 \<le> mo" "mo \<le> 12"
    using assms create_calendar_Inr_month by blast+
  let ?b = "last (nav_row now yr mo)"
  have "?b \<in> set (nav_row now yr mo)"
    by (simp add: nav_row_def Let_def)
  moreover have "set (nav_row now yr mo) \<subseteq> set (concat kb)"
    using assms unfolding create_calendar_valid[OF m] by auto
  moreover have "starts_with ''nav'' (callback_data ?b)"
    by (simp add: nav_row_def Let_def InlineKeyboardButton_def starts_with_def)
  ultimately show ?thesis by blast
qed

subsection \<open>What the calendar handler sends\<close>

lemma next_day_month:
  assumes "next_day \<lparr>year = yr, month = mo, day = dy\<rparr> = Inr nd"
    and "\<not> month_before yr mo now"
  shows "\<not> month_before (year nd) (month nd) now"
  using assms by (auto simp: next_day_def month_before_def split: if_splits)

lemma handle_calendar_day_keyboards:
  assumes "1 \<le> mo" "mo \<le> 12" "1 \<le> dy" "dy \<le> ndays_of yr mo"
    and "\<not> month_before yr mo now"
    and "kb' \<in> set (keyboards_sent (snd (snd (handle_calendar now (''cal_'' @ date_str yr mo dy) ud))))"
  shows "\<exists>yr' mo'. create_calendar now yr' mo' None = Inr kb' \<and> \<not> month_before yr' mo' now"
proof -
  define tok where "tok = ''cal_'' @ date_str yr mo dy"
  have u: "CHR ''_'' \<notin> set (date_str yr mo dy)"
    using assms(1,3) by (intro date_str_no_underscore) simp_all
  have sp: "py_split (CHR ''_'') tok = [''cal'', date_str yr mo dy]"
    unfolding tok_def by (rule split_cal_token[OF u])
  have ni: "tok \<noteq> ''ignore''"
    unfolding tok_def by (rule cal_token_prefix(3))
  have d31: "dy \<le> 31"
    using ndays_of_bounds[OF assms(1,2), of yr] assms(4) by simp
  have st: "strptime (date_str yr mo dy) = Inr \<lparr>year = yr, month = mo, day = dy\<rparr> \<or>
            strptime (date_str yr mo dy) = Inl ValueError"
  proof (cases "yr < 0")
    case True
    then show ?thesis by (simp add: strptime_negative_year)
  next
    case False
    then show ?thesis
      using assms(1-3) d31 by (subst (1 2) strptime_date_str) simp_all
  qed
  have hc: "handle_calendar now tok ud =
     (case strptime (date_str yr mo dy) of
        Inl e \<Rightarrow> calendar_error ud
      | Inr selected_date \<Rightarrow>
          (case ud_checkin_date ud of
             None \<Rightarrow>
               (let ud1 = ud\<lparr>ud_checkin_date := Some selected_date\<rparr>
                in case next_day selected_date of
                     Inl e \<Rightarrow> calendar_error ud1
                   | Inr nd \<Rightarrow>
                       (case create_calendar now (year nd) (month nd) None of
                          Inl e \<Rightarrow> calendar_error ud1
                        | Inr calendar_markup \<Rightarrow>
                            (ud1\<lparr>ud_calendar_state := Some SELECT_CHECKOUT\<rparr>,
                             Return SELECT_CHECKOUT,
                             [Answer,
                              EditText (heavy_check_mark @ '' Check-in: '' @
                                        strftime selected_date @
                                        ''\<newline>Select check-out date:'')
                                (Some calendar_markup)])))
           | Some checkin \<Rightarrow>
               if dt_le selected_date checkin then
                 (ud, Return SELECT_CHECKOUT,
                  [Answer, AnswerAlert ''Please select a date after check-in''])
               else
                 (ud\<lparr>ud_checkout_date := Some selected_date,
                     ud_dates := Some (strftime checkin @ '' to '' @
                                       strftime selected_date)\<rparr>,
                  Return GUESTS,
                  [Answer,
                   EditText (heavy_check_mark @ '' Dates selected!\<newline>Check-in: '' @
                             strftime checkin @ ''\<newline>Check-out: '' @
                             strftime selected_date) None,
                   ReplyText ''How many guests will be staying?'' None])))"
    by (simp add: handle_calendar_def ni sp cal_argument_def)
  from st show ?thesis
  proof
    assume e: "strptime (date_str yr mo dy) = Inl ValueError"
    then show ?thesis
      using assms(6) unfolding tok_def[symmetric] hc
      by (simp add: keyboards_sent_calendar_error)
  next
    assume ok: "strptime (date_str yr mo dy) = Inr \<lparr>year = yr, month = mo, day = dy\<rparr>"
    show ?thesis
    proof (cases "ud_checkin_date ud")
      case (Some checkin)
      then show ?thesis
        using assms(6) unfolding tok_def[symmetric] hc
        by (simp add: ok keyboards_sent_simps split: if_splits)
    next
      case None
      show ?thesis
      proof (cases "next_day \<lparr>year = yr, month = mo, day = dy\<rparr>")
        case (Inl e)
        then show ?thesis
          using assms(6) None unfolding tok_def[symmetric] hc
          by (simp add: ok keyboards_sent_calendar_error)
      next
        case (Inr nd)
        have nb: "\<not> month_before (year nd) (month nd) now"
          using next_day_month[OF Inr assms(5)] .
        show ?thesis
        proof (cases "create_calendar now (year nd) (month nd) None")
          case (Inl e)
          then show ?thesis
            using assms(6) None Inr unfolding tok_def[symmetric] hc
            by (simp add: ok keyboards_sent_calendar_error)
        next
          case cal: (Inr calendar_markup)
          then have "kb' = calendar_markup"
            using assms(6) None Inr unfolding tok_def[symmetric] hc
            by (simp add: ok keyboards_sent_simps)
          then show ?thesis
            using cal nb by blast
        qed
      qed
    qed
  qed
qed

lemma handle_calendar_nav_keyboards:
  assumes "\<not> month_before a b now"
    and "kb' \<in> set (keyboards_sent (snd (snd (handle_calendar now
                  (''nav_'' @ str_int a @ ''_'' @ str_int b) ud))))"
  shows "\<exists>yr' mo'. create_calendar now yr' mo' None = Inr kb' \<and> \<not> month_before yr' mo' now"
proof (cases "create_calendar now a b None")
  case (Inl e)
  then show ?thesis
    using assms(2) unfolding handle_calendar_nav
    by (simp add: keyboards_sent_calendar_error)
next
  case (Inr kb)
  then have "kb' = kb"
    using assms(2) unfolding handle_calendar_nav by (simp add: keyboards_sent_simps)
  then show ?thesis
    using Inr assms(1) by blast
qed

lemma handle_calendar_ignore_keyboards:
  "keyboards_sent (snd (snd (handle_calendar now ''ignore'' ud))) = []"
  by (simp add: handle_calendar_def keyboards_sent_simps)

lemma handle_calendar_from_calendar:
  assumes "create_calendar now yr mo None = Inr kb" and "\<not> month_before yr mo now"
    and "btn \<in> set (concat kb)"
    and "kb' \<in> set (keyboards_sent (snd (snd (handle_calendar now (callback_data btn) ud))))"
  shows "\<exists>yr' mo'. create_calendar now yr' mo' None = Inr kb' \<and> \<not> month_before yr' mo' now"
proof -
  have m: "1 \<le> mo" "mo \<le> 12"
    using assms(1) create_calendar_Inr_month by blast+
  from calendar_buttons[OF assms(1,3)] consider
      "callback_data btn = ''ignore''"
    | dy where "1 \<le> dy" "dy \<le> ndays_of yr mo" "callback_data btn = ''cal_'' @ date_str yr mo dy"
    | "btn \<in> set (nav_row now yr mo)"
    by blast
  then show ?thesis
  proof cases
    case 1
    then show ?thesis
      using assms(4) by (simp add: handle_calendar_ignore_keyboards)
  next
    case 2
    then show ?thesis
      using handle_calendar_day_keyboards[OF m 2(1,2) assms(2)] assms(4) by simp
  next
    case 3
    from nav_row_tokens[OF m assms(2) 3] show ?thesis
    proof
      assume "callback_data btn = ''ignore''"
      then show ?thesis
        using assms(4) by (simp add: handle_calendar_ignore_keyboards)
    next
      assume "\<exists>a b. callback_data btn = ''nav_'' @ str_int a @ ''_'' @ str_int b \<and>
                1 \<le> b \<and> b \<le> 12 \<and> \<not> month_before a b now"
      then obtain a b where
        ab: "callback_data btn = ''nav_'' @ str_int a @ ''_'' @ str_int b"
          "\<not> month_before a b now"
        by blast
      show ?thesis
        using handle_calendar_nav_keyboards[OF ab(2)] assms(4) unfolding ab(1) by blast
    qed
  qed
qed

subsection \<open>What the other handlers send\<close>

text \<open>A keyboard none of whose buttons reaches the calendar handler.\<close>

lemma amenities_keyboard_plain:
  "btn \<in> set (concat (amenities_keyboard f)) \<Longrightarrow>
   \<not> starts_with ''nav'' (callback_data btn) \<and> \<not> starts_with ''cal'' (callback_data btn)"
  by (auto simp: amenities_keyboard_def amenities_options_def InlineKeyboardButton_def
      starts_with_def)

lemma feedback_keyboard_plain:
  "btn \<in> set (concat (feedback_keyboard listing_id)) \<Longrightarrow>
   \<not> starts_with ''nav'' (callback_data btn) \<and> \<not> starts_with ''cal'' (callback_data btn)"
  by (auto simp: feedback_keyboard_def InlineKeyboardButton_def starts_with_def)

lemma show_listings_keyboards:
  "show_listings R ls ud = (ud', sent, err) \<Longrightarrow> kb \<in> set (keyboards_sent sent) \<Longrightarrow>
   \<exists>listing_id. kb = feedback_keyboard listing_id"
proof (induction ls arbitrary: ud ud' sent err)
  case Nil
  then show ?case by (simp add: keyboards_sent_simps)
next
  case (Cons l ls)
  show ?case
  proof (cases "listing_message R l")
    case (Inl e)
    then show ?thesis
      using Cons.prems by (simp add: Let_def keyboards_sent_simps)
  next
    case (Inr message)
    obtain ud2 sent2 err2 where
      r: "show_listings R ls (ud\<lparr>ud_listings := (ud_listings ud)(listing_id_of R l \<mapsto> l)\<rparr>) =
          (ud2, sent2, err2)"
      by (metis prod_cases3)
    then have s: "sent = ReplyText message (Some (feedback_keyboard (listing_id_of R l))) # sent2"
      using Cons.prems(1) Inr by (simp add: Let_def)
    show ?thesis
      using Cons.prems(2) Cons.IH[OF r] unfolding s
      by (auto simp: keyboards_sent_simps)
  qed
qed

lemma price_range_keyboards:
  assumes "kb \<in> set (keyboards_sent (snd (snd (price_range R http t ud))))"
  shows "\<exists>listing_id. kb = feedback_keyboard listing_id"
proof (cases "parse_price_text t")
  case (Inl prompt)
  then show ?thesis
    using assms by (simp add: price_range_def keyboards_sent_simps)
next
  case (Inr range)
  obtain lo hi where range: "range = (lo, hi)"
    by (cases range) auto
  show ?thesis
  proof (cases "\<exists>loc checkin checkout g.
          ud_location ud = Some loc \<and> ud_checkin_date ud = Some checkin \<and>
          ud_checkout_date ud = Some checkout \<and> ud_guests ud = Some g")
    case False
    then show ?thesis
      using assms Inr range
      by (auto simp: price_range_def keyboards_sent_simps split: option.splits)
  next
    case True
    then obtain loc checkin checkout g where
      f: "ud_location ud = Some loc" "ud_checkin_date ud = Some checkin"
         "ud_checkout_date ud = Some checkout" "ud_guests ud = Some g"
      by blast
    define ls where "ls = search_listings R http loc (strftime checkin) (strftime checkout) g
                          (Some lo) (Some hi)
                          (case ud_selected_amenities ud of None \<Rightarrow> AmenityList [] | Some sel \<Rightarrow> sel)"
    obtain ud1 sent err where sl: "show_listings R ls ud = (ud1, sent, err)"
      by (metis prod_cases3)
    have "kb \<in> set (keyboards_sent sent)"
    proof (cases "ls = []")
      case True
      then show ?thesis
        using assms Inr range f
        by (simp add: price_range_def ls_def[symmetric] keyboards_sent_simps)
    next
      case False
      then show ?thesis
        using assms Inr range f sl
        by (cases err;
            cases "final_message R loc checkin checkout g lo hi (ud_selected_amenities ud1)")
           (simp_all add: price_range_def ls_def[symmetric] keyboards_sent_simps
              keyboards_sent_append)
    qed
    then show ?thesis
      using show_listings_keyboards[OF sl] by blast
  qed
qed

lemma feedback_handler_keyboards:
  assumes "kb \<in> set (keyboards_sent (snd (handle_listing_feedback uid q s)))"
    and "btn \<in> set (concat kb)"
  shows "callback_data btn = ''dummy''"
  using assms
  by (auto simp: handle_listing_feedback_def Let_def keyboards_sent_simps
      InlineKeyboardButton_def
      split: prod.splits option.splits sum.splits if_splits)

subsection \<open>Every keyboard sent\<close>

lemma conversation_handler_cases:
  assumes "conversation_handler R http now st u ud = Some res"
  shows "res = search_start ud \<or> (\<exists>t. res = location_handler now t ud) \<or>
         (\<exists>q. u = CallbackQuery q \<and> (starts_with ''nav'' q \<or> starts_with ''cal'' q) \<and>
              res = handle_calendar now q ud) \<or>
         res = checkin_fallback ud \<or> res = checkout_fallback ud \<or>
         (\<exists>t. res = guests_handler t ud) \<or> (\<exists>q. res = amenity_callback R q ud) \<or>
         (\<exists>t. res = price_range R http t ud) \<or> res = cancel ud"
proof (cases st)
  case None
  then show ?thesis
    using assms by (cases u) (simp_all add: conversation_handler_def split: if_splits)
next
  case (Some s)
  then show ?thesis
    using assms
    by (cases s; cases u) (auto simp: conversation_handler_def split: if_splits)
qed

lemma no_keyboards:
  "keyboards_sent (snd (snd (search_start ud))) = []"
  "keyboards_sent (snd (snd (checkin_fallback ud))) = []"
  "keyboards_sent (snd (snd (checkout_fallback ud))) = []"
  "keyboards_sent (snd (snd (cancel ud))) = []"
  by (simp_all add: search_start_def checkin_fallback_def checkout_fallback_def cancel_def
      keyboards_sent_simps)

lemma location_handler_keyboards:
  assumes "kb \<in> set (keyboards_sent (snd (snd (location_handler now t ud))))"
  shows "create_calendar now (year now) (month now) None = Inr kb \<and>
         \<not> month_before (year now) (month now) now"
  using assms
  by (cases "create_calendar now (year now) (month now) None")
     (simp_all add: location_handler_def Let_def keyboards_sent_simps month_before_def)

lemma guests_handler_keyboards:
  assumes "kb \<in> set (keyboards_sent (snd (snd (guests_handler t ud))))"
  shows "\<exists>f. kb = amenities_keyboard f"
  using assms
  by (auto simp: guests_handler_def keyboards_sent_simps split: option.splits if_splits)

lemma amenity_callback_keyboards:
  assumes "kb \<in> set (keyboards_sent (snd (snd (amenity_callback R q ud))))"
  shows "\<exists>f. kb = amenities_keyboard f"
  using assms
  by (auto simp: amenity_callback_def Let_def keyboards_sent_simps
      split: option.splits if_splits selection.splits)

lemma process_update_keyboards:
  assumes inv: "\<forall>kb \<in> set kbs.
           (\<exists>yr mo. create_calendar now yr mo None = Inr kb \<and> \<not> month_before yr mo now) \<or>
           (\<forall>btn \<in> set (concat kb). \<not> starts_with ''nav'' (callback_data btn) \<and>
                                     \<not> starts_with ''cal'' (callback_data btn))"
    and off: "offered kbs u"
    and kb': "kb' \<in> set (keyboards_sent (snd (process_update R http now uid u b)))"
  shows "(\<exists>yr mo. create_calendar now yr mo None = Inr kb' \<and> \<not> month_before yr mo now) \<or>
         (\<forall>btn \<in> set (concat kb'). \<not> starts_with ''nav'' (callback_data btn) \<and>
                                    \<not> starts_with ''cal'' (callback_data btn))"
proof (cases "\<exists>q. u = CallbackQuery q \<and> starts_with ''feedback_'' q")
  case True
  then obtain q where q: "u = CallbackQuery q" "starts_with ''feedback_'' q"
    by blast
  have "kb' \<in> set (keyboards_sent (snd (handle_listing_feedback uid q (db b, model b, session b))))"
    using kb' q by (simp add: process_update_def split: prod.splits)
  then have "\<forall>btn \<in> set (concat kb'). callback_data btn = ''dummy''"
    using feedback_handler_keyboards by blast
  then show ?thesis
    by (auto simp: starts_with_def)
next
  case False
  show ?thesis
  proof (cases "conversation_handler R http now (conversation b) u (session b)")
    case None
    then have "keyboards_sent (snd (process_update R http now uid u b)) = []"
      using False
      by (cases u) (auto simp: process_update_def keyboards_sent_simps)
    then show ?thesis
      using kb' by simp
  next
    case (Some res)
    obtain ud r sent where res: "res = (ud, r, sent)"
      by (cases res) auto
    have "snd (process_update R http now uid u b) = sent"
      using False Some res by (cases u) (auto simp: process_update_def)
    then have k: "kb' \<in> set (keyboards_sent (snd (snd res)))"
      using kb' res by simp
    from conversation_handler_cases[OF Some] consider
        "res = search_start (session b) \<or> res = checkin_fallback (session b) \<or>
         res = checkout_fallback (session b) \<or> res = cancel (session b)"
      | t where "res = location_handler now t (session b)"
      | q where "u = CallbackQuery q" "starts_with ''nav'' q \<or> starts_with ''cal'' q"
          "res = handle_calendar now q (session b)"
      | t where "res = guests_handler t (session b)"
      | q where "res = amenity_callback R q (session b)"
      | t where "res = price_range R http t (session b)"
      by blast
    then show ?thesis
    proof cases
      case 1
      then show ?thesis
        using k no_keyboards by auto
    next
      case 2
      then show ?thesis
        using k location_handler_keyboards by blast
    next
      case 3
      from off 3(1) obtain kb btn where
        kb: "kb \<in> set kbs" "btn \<in> set (concat kb)" "callback_data btn = q"
        by (auto simp: offered_def)
      from inv kb(1) have
        "(\<exists>yr mo. create_calendar now yr mo None = Inr kb \<and> \<not> month_before yr mo now) \<or>
         (\<forall>btn \<in> set (concat kb). \<not> starts_with ''nav'' (callback_data btn) \<and>
                                   \<not> starts_with ''cal'' (callback_data btn))"
        by blast
      then obtain yr mo where
        c: "create_calendar now yr mo None = Inr kb" "\<not> month_before yr mo now"
        using kb(2,3) 3(2) by blast
      show ?thesis
        using handle_calendar_from_calendar[OF c kb(2)] k 3(3) kb(3) by blast
    next
      case 4
      then show ?thesis
        using k guests_handler_keyboards amenities_keyboard_plain by blast
    next
      case 5
      then show ?thesis
        using k amenity_callback_keyboards amenities_keyboard_plain by blast
    next
      case 6
      then show ?thesis
        using k price_range_keyboards feedback_keyboard_plain by blast
    qed
  qed
qed

lemma reachable_keyboards:
  assumes "reachable R http now uid b0 s"
  shows "\<forall>kb \<in> set (snd s).
           (\<exists>yr mo. create_calendar now yr mo None = Inr kb \<and> \<not> month_before yr mo now) \<or>
           (\<forall>btn \<in> set (concat kb). \<not> starts_with ''nav'' (callback_data btn) \<and>
                                     \<not> starts_with ''cal'' (callback_data btn))"
  using assms
proof (induction rule: reachable.induct)
  case start
  then show ?case by simp
next
  case (step b kbs u b' sent)
  have "sent = snd (process_update R http now uid u b)"
    using step.hyps(3) by simp
  then show ?case
    using step.IH
      process_update_keyboards[where now = now and R = R and http = http and uid = uid
        and b = b, OF _ step.hyps(2)]
    by auto
qed

lemma bot_session_same:
  "b\<lparr>conversation := c, session := session b\<rparr> = b\<lparr>conversation := c\<rparr>"
  by (cases b) simp

lemma process_update_nav:
  assumes "conversation c = Some SELECT_CHECKIN \<or> conversation c = Some SELECT_CHECKOUT"
    and "create_calendar now yr mo None = Inr kb"
  shows "process_update R http now uid
           (CallbackQuery (''nav_'' @ str_int yr @ ''_'' @ str_int mo)) c =
         (c\<lparr>conversation := Some (calendar_state_or_default (session c))\<rparr>,
          [Answer, EditReplyMarkup (Some kb)])"
proof -
  define tok where "tok = ''nav_'' @ str_int yr @ ''_'' @ str_int mo"
  have p: "starts_with ''nav'' tok" "\<not> starts_with ''feedback_'' tok"
    unfolding tok_def by (rule nav_token_prefix)+
  have h: "handle_calendar now tok (session c) =
           (session c, Return (calendar_state_or_default (session c)),
            [Answer, EditReplyMarkup (Some kb)])"
    unfolding tok_def handle_calendar_nav by (simp add: assms(2))
  have "conversation_handler R http now (conversation c) (CallbackQuery tok) (session c) =
        Some (handle_calendar now tok (session c))"
    using assms(1) p(1) by (auto simp: conversation_handler_def)
  then have "process_update R http now uid (CallbackQuery tok) c =
         (c\<lparr>conversation := Some (calendar_state_or_default (session c))\<rparr>,
          [Answer, EditReplyMarkup (Some kb)])"
    by (simp add: process_update_def p(2) h next_state_def bot_session_same)
  then show ?thesis
    unfolding tok_def .
qed

lemma create_calendar_succeeds:
  assumes "1 \<le> mo" "mo \<le> 12"
  shows "\<exists>kb. create_calendar now yr mo None = Inr kb"
  unfolding create_calendar_valid[OF assms] by simp

lemma str_int_2025: "str_int 2025 = ''2025''" "str_int 5 = ''5''" "str_int 6 = ''6''"
  "str_int 7 = ''7''"
  by (simp_all add: str_int_def str_nat.simps digit_char_def)

lemma nav_row_may: "nav_row may_now 2025 6 =
   [InlineKeyboardButton ''<<'' ''nav_2025_5'', InlineKeyboardButton ''>>'' ''nav_2025_7'']"
  by (simp add: nav_row_def may_now_def Let_def str_int_2025)

lemma previous_month_button_of_may:
  "map_sum id (\<lambda>kb. map callback_data (last kb)) (create_calendar may_now 2025 6 None) =
   Inr [''nav_2025_5'', ''nav_2025_7'']"
proof -
  have m: "(1::int) \<le> 6" "(6::int) \<le> 12"
    by simp_all
  show ?thesis
    unfolding create_calendar_valid[OF m] by (simp add: nav_row_may InlineKeyboardButton_def)
qed

text \<open>
  Claim C2, as stated, fails: \<^verbatim>\<open>handle_calendar\<close> has no test on the requested month.
  On 15 June 2025, in state \<open>SELECT_CHECKIN\<close>, the event \<^verbatim>\<open>nav_2025_5\<close> is not
  ignored: the message is edited with the calendar of May 2025, a month strictly before
  the current one. The only test is \<^verbatim>\<open>can_go_prev\<close> in \<^verbatim>\<open>create_calendar\<close>, which
  decides what the calendar offers when it is built; the calendar of June built on
  20 May carries this event on its button for the previous month
  (\<open>previous_month_button_of_may\<close>).
\<close>

theorem past_month_navigation_counterexample:
  "month_before 2025 5 example_now \<and>
   conversation checkin_bot = Some SELECT_CHECKIN \<and>
   map Inr (keyboards_sent (snd (process_update example_runtime example_http example_now 7
                                   (CallbackQuery ''nav_2025_5'') checkin_bot))) =
     [create_calendar example_now 2025 5 None] \<and>
   map (button_text \<circ> hd \<circ> hd)
     (keyboards_sent (snd (process_update example_runtime example_http example_now 7
                             (CallbackQuery ''nav_2025_5'') checkin_bot))) = [''May 2025''] \<and>
   fst (process_update example_runtime example_http example_now 7
          (CallbackQuery ''nav_2025_5'') checkin_bot) = checkin_bot"
proof -
  have mb: "month_before 2025 5 example_now"
    by (simp add: month_before_def example_now_def)
  have cv: "conversation checkin_bot = Some SELECT_CHECKIN"
    by (simp add: checkin_bot_def)
  obtain kb where kb: "create_calendar example_now 2025 5 None = Inr kb"
    using create_calendar_succeeds[of 5 example_now 2025] by auto
  have "process_update example_runtime example_http example_now 7
          (CallbackQuery (''nav_'' @ str_int 2025 @ ''_'' @ str_int 5)) checkin_bot =
        (checkin_bot\<lparr>conversation := Some (calendar_state_or_default (session checkin_bot))\<rparr>,
         [Answer, EditReplyMarkup (Some kb)])"
    using cv kb by (intro process_update_nav) simp_all
  then have pu: "process_update example_runtime example_http example_now 7
          (CallbackQuery ''nav_2025_5'') checkin_bot =
        (checkin_bot, [Answer, EditReplyMarkup (Some kb)])"
    by (simp add: str_int_2025 calendar_state_or_default_def checkin_bot_def empty_session_def)
  have m: "(1::int) \<le> 5" "(5::int) \<le> 12"
    by simp_all
  have hd: "button_text (hd (hd kb)) = ''May 2025''"
    using kb unfolding create_calendar_valid[OF m]
    by (auto simp: InlineKeyboardButton_def month_names_def str_int_2025)
  show ?thesis
    unfolding pu kb using mb cv hd by (simp add: keyboards_sent_simps)
qed

text \<open>
  Claim C2, amended. A navigation event is never ignored: in the two calendar states,
  for every year and every month from 1 to 12, also one strictly before the current
  month, the handler edits the message with the calendar of the requested month, leaves
  the session as it is and returns the stored calendar state. What keeps past months
  away is the calendar itself, which offers its previous month only when that month is
  not before the current one: while the date does not change and the user presses only
  buttons of keyboards the bot has sent since the start, no keyboard sent is the
  calendar of a month strictly before the month containing today.
\<close>

theorem navigation_never_shows_past_month:
  assumes "reachable R http now uid b0 (b, kbs)"
  shows "(\<forall>kb \<in> set kbs. \<forall>yr mo. create_calendar now yr mo None = Inr kb \<longrightarrow>
                                  \<not> month_before yr mo now) \<and>
         (\<forall>c yr mo.
            conversation c = Some SELECT_CHECKIN \<or> conversation c = Some SELECT_CHECKOUT \<longrightarrow>
            1 \<le> mo \<longrightarrow> mo \<le> 12 \<longrightarrow>
            (\<exists>kb. create_calendar now yr mo None = Inr kb \<and>
                  process_update R http now uid
                    (CallbackQuery (''nav_'' @ str_int yr @ ''_'' @ str_int mo)) c =
                  (c\<lparr>conversation := Some (calendar_state_or_default (session c))\<rparr>,
                   [Answer, EditReplyMarkup (Some kb)])))"
proof (intro conjI ballI allI impI)
  fix kb yr mo
  assume kb: "kb \<in> set kbs" and c: "create_calendar now yr mo None = Inr kb"
  from reachable_keyboards[OF assms] kb have
    "(\<exists>yr mo. create_calendar now yr mo None = Inr kb \<and> \<not> month_before yr mo now) \<or>
     (\<forall>btn \<in> set (concat kb). \<not> starts_with ''nav'' (callback_data btn) \<and>
                               \<not> starts_with ''cal'' (callback_data btn))"
    by simp
  then show "\<not> month_before yr mo now"
  proof
    assume "\<exists>yr mo. create_calendar now yr mo None = Inr kb \<and> \<not> month_before yr mo now"
    then obtain yr' mo' where
      c': "create_calendar now yr' mo' None = Inr kb" "\<not> month_before yr' mo' now"
      by blast
    from create_calendar_inject[OF c c'(1)] c'(2) show ?thesis
      by simp
  next
    assume "\<forall>btn \<in> set (concat kb). \<not> starts_with ''nav'' (callback_data btn) \<and>
                                     \<not> starts_with ''cal'' (callback_data btn)"
    with calendar_has_nav[OF c] show ?thesis
      by blast
  qed
next
  fix c :: bot and yr mo :: int
  assume s: "conversation c = Some SELECT_CHECKIN \<or> conversation c = Some SELECT_CHECKOUT"
    and m: "1 \<le> mo" "mo \<le> 12"
  from create_calendar_succeeds[OF m] obtain kb where
    kb: "create_calendar now yr mo None = Inr kb"
    by blast
  from process_update_nav[OF s kb] kb
  show "\<exists>kb. create_calendar now yr mo None = Inr kb \<and>
             process_update R http now uid
               (CallbackQuery (''nav_'' @ str_int yr @ ''_'' @ str_int mo)) c =
             (c\<lparr>conversation := Some (calendar_state_or_default (session c))\<rparr>,
              [Answer, EditReplyMarkup (Some kb)])"
    by blast
qed

text \<open>
  The theorem after the location \<^verbatim>\<open>Paris\<close> on 15 June 2025, and at the event
  \<^verbatim>\<open>nav_2025_7\<close>.
\<close>

theorem navigation_never_shows_past_month_witness:
  "reachable example_runtime example_http example_now 7 location_bot
     (fst (process_update example_runtime example_http example_now 7
             (TextMessage ''Paris'') location_bot),
      keyboards_sent (snd (process_update example_runtime example_http example_now 7
                             (TextMessage ''Paris'') location_bot))) \<and>
   map Inr (keyboards_sent (snd (process_update example_runtime example_http example_now 7
                                   (TextMessage ''Paris'') location_bot))) =
     [create_calendar example_now 2025 6 None] \<and>
   \<not> month_before 2025 6 example_now \<and>
   conversation checkin_bot = Some SELECT_CHECKIN \<and>
   map Inr (keyboards_sent (snd (process_update example_runtime example_http example_now 7
                                   (CallbackQuery ''nav_2025_7'') checkin_bot))) =
     [create_calendar example_now 2025 7 None]"
proof -
  define pu where "pu = process_update example_runtime example_http example_now 7
                          (TextMessage ''Paris'') location_bot"
  obtain kb where kb: "create_calendar example_now 2025 6 None = Inr kb"
    using create_calendar_succeeds[of 6 example_now 2025] by auto
  have ks: "keyboards_sent (snd pu) = [kb]"
    unfolding pu_def
    by (simp add: process_update_def conversation_handler_def location_bot_def
        location_handler_def Let_def example_now_def[symmetric] kb keyboards_sent_simps
        next_state_def)
       (simp add: example_now_def kb[unfolded example_now_def] keyboards_sent_simps)
  have "reachable example_runtime example_http example_now 7 location_bot
          (fst pu, [] @ keyboards_sent (snd pu))"
    by (rule reachable.step[OF reachable.start, where u = "TextMessage ''Paris''"])
       (simp_all add: offered_def pu_def)
  then have r: "reachable example_runtime example_http example_now 7 location_bot
                  (fst pu, keyboards_sent (snd pu))"
    by simp
  have cv: "conversation checkin_bot = Some SELECT_CHECKIN"
    by (simp add: checkin_bot_def)
  note t = navigation_never_shows_past_month[OF r]
  from t ks kb have a: "\<not> month_before 2025 6 example_now"
    by simp
  from t cv obtain kb7 where
    kb7: "create_calendar example_now 2025 7 None = Inr kb7"
      "process_update example_runtime example_http example_now 7
         (CallbackQuery (''nav_'' @ str_int 2025 @ ''_'' @ str_int 7)) checkin_bot =
       (checkin_bot\<lparr>conversation := Some (calendar_state_or_default (session checkin_bot))\<rparr>,
        [Answer, EditReplyMarkup (Some kb7)])"
    by (elim conjE allE[where x = checkin_bot] allE[where x = "2025::int"] allE[where x = "7::int"])
       auto
  have b: "map Inr (keyboards_sent (snd (process_update example_runtime example_http example_now 7
                                   (CallbackQuery ''nav_2025_7'') checkin_bot))) =
     [create_calendar example_now 2025 7 None]"
    using kb7 by (simp add: str_int_2025 keyboards_sent_simps)
  show ?thesis
    using r a cv b ks kb unfolding pu_def by simp
qed

end
